theory Spec2Isabelle
  imports Complex_Main "HOL-Library.Product_Lexorder" "HOL-Library.Multiset"
begin

section \<open>Shared data of the controllers\<close>

text \<open>
  Identifiers, roles and status tags are JavaScript strings in the source and are compared
  with \<open>===\<close> against string literals, so they stay strings here. Scores are JavaScript
  numbers; a finite one is the real number it denotes, so the comparisons with the
  thresholds of the source are exact. Where the source multiplies or divides scores, the
  result is rounded to a double as IEEE 754 does (\<open>to_double\<close> below).
\<close>

type_synonym ident = string

text \<open>
  \<open>throw new AppError(message, statusCode)\<close> is \<open>AppError\<close>; a \<open>TypeError\<close> of the runtime
  and any other thrown value are \<open>TypeError\<close> and \<open>Thrown\<close>. \<open>NotFoundError\<close> and
  \<open>ValidationError\<close> are the error kinds the specification gives the matcher.
\<close>

datatype error =
    AppError (message: string) (statusCode: nat)
  | TypeError string
  | Thrown string
  | NotFoundError
  | ValidationError

text \<open>\<open>Array.prototype.join\<close> with a separator.\<close>

fun join :: "string \<Rightarrow> string list \<Rightarrow> string" where
  "join sep [] = []"
| "join sep [x] = x"
| "join sep (x # y # ys) = x @ sep @ join sep (y # ys)"

text \<open>\<open>Math.round\<close>: the nearest integer, halves towards plus infinity.\<close>

definition Math_round :: "real \<Rightarrow> int" where
  "Math_round x = \<lfloor>x + 1 / 2\<rfloor>"

text \<open>
  The result of an arithmetic operation on doubles: a finite double, as the real number
  it denotes, or an infinity after overflow.
\<close>

datatype js_number = Finite real | PosInfinity | NegInfinity

text \<open>Rounding to the nearest integer, halves to the even one.\<close>

definition round_half_even :: "real \<Rightarrow> int" where
  "round_half_even y =
     (let f = \<lfloor>y\<rfloor>; r = y - real_of_int f
      in if r < 1 / 2 then f else if 1 / 2 < r then f + 1 else if even f then f else f + 1)"

text \<open>
  The binade of a positive real \<open>y\<close>: the exponent \<open>e\<close> with \<open>2 ^ e \<le> y < 2 ^ (e + 1)\<close>,
  searched among the exponents from -1100 to 1099, which cover every finite double.
\<close>

definition binade_candidates :: "int list" where
  "binade_candidates = concat (map (\<lambda>n. [int n, - int n - 1]) [0..<1100])"

definition binade :: "real \<Rightarrow> int option" where
  "binade y = find (\<lambda>e. 2 powi e \<le> y \<and> y < 2 powi (e + 1)) binade_candidates"

text \<open>
  The rounding of IEEE 754 binary64 arithmetic, which every JavaScript \<open>*\<close> and \<open>/\<close>
  applies to its exact result: to the nearest number with a 53-bit significand, halves to
  the even significand, with the subnormal spacing \<open>2 ^ -1074\<close> at the bottom and an
  infinity from \<open>2 ^ 1024\<close> on. The sign of a zero is not kept.
\<close>

definition to_double :: "real \<Rightarrow> js_number" where
  "to_double x =
     (case binade \<bar>x\<bar> of
        None \<Rightarrow> if \<bar>x\<bar> < 1 then Finite 0 else if 0 < x then PosInfinity else NegInfinity
      | Some e \<Rightarrow>
          (let u = max (e - 52) (- 1074);
               r = real_of_int (round_half_even (x / 2 powi u)) * 2 powi u
           in if 2 powi 1024 \<le> \<bar>r\<bar> then (if 0 < x then PosInfinity else NegInfinity)
              else Finite r))"

text \<open>
  \<open>Math.round(x * c) / c\<close> on doubles. The operand \<open>x\<close> is a double: a real that is not
  one stands for the double nearest to it, as a decimal literal does. The product is
  rounded to a double, \<open>Math.round\<close> of a finite double is exact, and the quotient is
  rounded to a double again. An infinity stays one through \<open>Math.round\<close> and the
  division.
\<close>

definition round_scaled :: "real \<Rightarrow> real \<Rightarrow> js_number" where
  "round_scaled c x =
     (case to_double x of
        Finite x' \<Rightarrow>
          (case to_double (x' * c) of
             Finite p \<Rightarrow> to_double (real_of_int (Math_round p) / c)
           | PosInfinity \<Rightarrow> PosInfinity
           | NegInfinity \<Rightarrow> NegInfinity)
      | PosInfinity \<Rightarrow> PosInfinity
      | NegInfinity \<Rightarrow> NegInfinity)"

record match_factors =
  skills :: real
  location :: real
  interests :: real
  availability :: real
  experience :: real

text \<open>
  The fields of a Prisma \<open>Project\<close> row that the controllers read or write, with the
  relations \<open>requiredSkills\<close> and \<open>applications\<close> included as lists. \<open>project_id\<close> is
  the column \<open>id\<close>; \<open>createdAt\<close> is a timestamp in milliseconds.
\<close>

record project =
  project_id :: ident
  title :: string
  category :: string
  status :: string
  createdAt :: int
  creatorId :: ident
  volunteersNeeded :: int
  volunteersApplied :: int
  estimatedHours :: "int option"
  requiredSkills :: "ident list"
  applications :: "ident list"
  images :: "string list"

text \<open>
  One element of what \<open>aiService.findMatches\<close> and \<open>aiService.recommendVolunteers\<close>
  hand to the controllers: the matched entity (\<open>match.project\<close>, \<open>rec.volunteer\<close>), the
  aggregate score and the factor breakdown.
\<close>

record 'e match =
  entity :: 'e
  score :: real
  factors :: match_factors

section \<open>aiController: the recommendation explainer\<close>

text \<open>
  \<open>generateVolunteerRecommendationReason\<close>: four \<open>if\<close> statements, each pushing one phrase
  onto \<open>reasons\<close>, in the order the source has them.
\<close>

definition push_if :: "bool \<Rightarrow> string \<Rightarrow> string list \<Rightarrow> string list" where
  "push_if c phrase reasons = (if c then reasons @ [phrase] else reasons)"

definition generateVolunteerRecommendationReason :: "'e match \<Rightarrow> string" where
  "generateVolunteerRecommendationReason recommendation =
     (let fs = factors recommendation;
          reasons = [];
          reasons = push_if (skills fs > 15) ''Has required skills'' reasons;
          reasons = push_if (location fs > 20) ''Located nearby'' reasons;
          reasons = push_if (experience fs > 8) ''Experienced volunteer'' reasons;
          reasons = push_if (availability fs > 12) ''Available for commitment'' reasons
      in if length reasons > 0 then join '', '' reasons else ''Well-matched volunteer'')"

text \<open>
  The explainer as the specification words it: the same thresholds and phrases, but the
  triggered phrases taken in the factor order skills, location, interests, availability,
  experience. The source has no phrase for the interests factor, so that slot stays empty.
\<close>

definition explain_in_spec_order :: "match_factors \<Rightarrow> string" where
  "explain_in_spec_order fs =
     (let reasons = map snd (filter fst
            [(skills fs > 15, ''Has required skills''),
             (location fs > 20, ''Located nearby''),
             (availability fs > 12, ''Available for commitment''),
             (experience fs > 8, ''Experienced volunteer'')])
      in if reasons = [] then ''Well-matched volunteer'' else join '', '' reasons)"

section \<open>aiController: impact prediction\<close>

datatype prediction_label = HIGH | MEDIUM | LOW

record impact_factors =
  projectSize :: int
  duration :: "int option"
  complexity :: nat
  popularity :: real
  factor_category :: string

record impact_prediction =
  impactScore :: int
  impact_factors :: impact_factors
  prediction :: prediction_label
  recommendations :: "string list"

text \<open>
  \<open>String.prototype.toLowerCase\<close> on the ASCII letters. The bytes of any other character
  are left as they are: no character outside ASCII lower-cases to a string of letters
  that occur in the four category names, so membership in the list is not affected.
\<close>

definition lower_char :: "char \<Rightarrow> char" where
  "lower_char c =
     (let n = (of_char c :: nat) in if 65 \<le> n \<and> n \<le> 90 then char_of (n + 32) else c)"

definition toLowerCase :: "string \<Rightarrow> string" where
  "toLowerCase s = map lower_char s"

definition highImpactCategories :: "string list" where
  "highImpactCategories = [''education'', ''healthcare'', ''environment'', ''poverty'']"

definition generateImpactRecommendations :: "project \<Rightarrow> int \<Rightarrow> string list" where
  "generateImpactRecommendations project score_arg =
     (let recs = [];
          recs = (if score_arg < 50
                  then recs @ [''Consider adding more detailed project description'',
                               ''Clarify the expected outcomes and impact'']
                  else recs);
          recs = (if volunteersApplied project = 0
                  then recs @ [''Promote the project through social media'',
                               ''Reach out to volunteers with relevant skills'']
                  else recs);
          recs = (if length (requiredSkills project) = 0
                  then recs @ [''Specify required skills to attract suitable volunteers'']
                  else recs)
      in recs)"

text \<open>\<open>applicationRate\<close>: applications per needed volunteer, 0 when none is needed.\<close>

definition applicationRate :: "project \<Rightarrow> real" where
  "applicationRate project =
     (if volunteersNeeded project > 0
      then real (length (applications project)) / real_of_int (volunteersNeeded project)
      else 0)"

text \<open>
  The running \<open>impactScore\<close> of \<open>calculateImpactPrediction\<close> before it is clamped. A null
  \<open>estimatedHours\<close> compares as 0 in \<open>estimatedHours > 40\<close>.
\<close>

definition rawImpactScore :: "project \<Rightarrow> int" where
  "rawImpactScore project =
     (let s = 50;
          s = (if volunteersNeeded project > 10 then s + 15 else s);
          s = (if (case estimatedHours project of None \<Rightarrow> 0 | Some h \<Rightarrow> h) > 40 then s + 10 else s);
          s = (if length (requiredSkills project) > 3 then s + 5 else s);
          s = (if applicationRate project > 0.8 then s + 10
               else if applicationRate project > 0.5 then s + 5 else s);
          s = (if toLowerCase (category project) \<in> set highImpactCategories then s + 10 else s)
      in s)"

definition calculateImpactPrediction :: "project \<Rightarrow> impact_prediction" where
  "calculateImpactPrediction project =
     (let s = rawImpactScore project in
      \<lparr> impactScore = min 100 (max 0 s),
        impact_factors = \<lparr> projectSize = volunteersNeeded project,
                           duration = estimatedHours project,
                           complexity = length (requiredSkills project),
                           popularity = applicationRate project,
                           factor_category = category project \<rparr>,
        prediction = (if s > 75 then HIGH else if s > 50 then MEDIUM else LOW),
        recommendations = generateImpactRecommendations project s \<rparr>)"

section \<open>aiController: the match handlers\<close>

record user =
  user_id :: ident
  role :: string

text \<open>
  The parts of the Express request the two handlers read. \<open>query_limit\<close> is the value of
  \<open>parseInt(req.query.limit)\<close>: \<open>None\<close> is \<open>NaN\<close> (a missing or non-numeric parameter).
\<close>

record ai_request =
  req_user :: user
  query_limit :: "int option"
  params_projectId :: ident

text \<open>
  \<open>parseInt(req.query.limit) || 10\<close>: \<open>NaN\<close> and \<open>0\<close> are falsy, so both give the default.
\<close>

definition limit_or_default :: "int option \<Rightarrow> int" where
  "limit_or_default parsed =
     (case parsed of None \<Rightarrow> 10 | Some n \<Rightarrow> if n = 0 then 10 else n)"

text \<open>\<open>Math.round(x * 100) / 100\<close>, as both handlers apply it.\<close>

definition round_100 :: "real \<Rightarrow> js_number" where
  "round_100 x = round_scaled 100 x"

text \<open>
  Rounding to \<open>n\<close> decimal places as the specification words it, in the arithmetic of
  the handlers; used only to compare the handlers' output with the specification.
\<close>

definition round_to_places :: "nat \<Rightarrow> real \<Rightarrow> js_number" where
  "round_to_places n x = round_scaled (10 ^ n) x"

text \<open>
  One element of \<open>processedMatches\<close> and \<open>processedRecommendations\<close>. The source copies a
  fixed selection of the entity's fields; the record keeps the entity as it is. The
  fields of \<open>matchFactors\<close> carry the names of the source with the prefix \<open>rounded\<close>.
\<close>

record rounded_factors =
  rounded_skills :: js_number
  rounded_location :: js_number
  rounded_interests :: js_number
  rounded_availability :: js_number
  rounded_experience :: js_number

record 'e processed =
  processed_entity :: 'e
  matchScore :: js_number
  matchFactors :: rounded_factors
  recommendationReason :: string

definition process :: "('e match \<Rightarrow> string) \<Rightarrow> 'e match \<Rightarrow> 'e processed" where
  "process reason m =
     \<lparr> processed_entity = entity m,
       matchScore = round_100 (score m),
       matchFactors = \<lparr> rounded_skills = round_100 (skills (factors m)),
                        rounded_location = round_100 (location (factors m)),
                        rounded_interests = round_100 (interests (factors m)),
                        rounded_availability = round_100 (availability (factors m)),
                        rounded_experience = round_100 (experience (factors m)) \<rparr>,
       recommendationReason = reason m \<rparr>"

text \<open>The JSON body of a successful response; \<open>generatedAt\<close> (the clock) is left out.\<close>

record 'e matches_body =
  processed_list :: "'e processed list"
  total :: nat
  anchor_id :: ident

text \<open>
  \<open>getMatches\<close>. \<open>Inl e\<close> is \<open>next(e)\<close>, \<open>Inr body\<close> is \<open>res.json\<close>. The collaborators that
  are not among the sources are arguments: \<open>findProfile\<close> is
  \<open>prisma.volunteerProfile.findUnique\<close> by user id, \<open>findMatches\<close> is
  \<open>aiService.findMatches\<close>, \<open>reason\<close> is \<open>generateRecommendationReason\<close> of the helpers.
\<close>

definition getMatches ::
  "(ident \<Rightarrow> 'vp option) \<Rightarrow> (ident \<Rightarrow> int \<Rightarrow> error + 'e match list) \<Rightarrow> ('e match \<Rightarrow> string)
     \<Rightarrow> ai_request \<Rightarrow> error + 'e matches_body" where
  "getMatches findProfile findMatches reason req =
     (if role (req_user req) \<noteq> ''VOLUNTEER''
      then Inl (AppError ''Only volunteers can access matches'' 403)
      else
        let limit = limit_or_default (query_limit req);
            volunteerId = user_id (req_user req)
        in case findProfile volunteerId of
             None \<Rightarrow> Inl (AppError ''Volunteer profile not found. Please complete your profile first.'' 404)
           | Some volunteerProfile \<Rightarrow>
               (case findMatches volunteerId limit of
                  Inl e \<Rightarrow> Inl e
                | Inr ms \<Rightarrow>
                    Inr \<lparr> processed_list = map (process reason) ms,
                          total = length ms,
                          anchor_id = volunteerId \<rparr>))"

text \<open>
  \<open>recommendVolunteers\<close>, with \<open>findProject\<close> for \<open>prisma.project.findUnique\<close> and
  \<open>aiRecommend\<close> for \<open>aiService.recommendVolunteers\<close>.
\<close>

definition recommendVolunteers ::
  "(ident \<Rightarrow> project option) \<Rightarrow> (ident \<Rightarrow> int \<Rightarrow> error + 'e match list)
     \<Rightarrow> ai_request \<Rightarrow> error + 'e matches_body" where
  "recommendVolunteers findProject aiRecommend req =
     (if role (req_user req) \<notin> set [''NGO'', ''GOVERNMENT'', ''ADMIN'']
      then Inl (AppError ''Only organizations can access volunteer recommendations'' 403)
      else
        let projectId = params_projectId req;
            limit = limit_or_default (query_limit req)
        in case findProject projectId of
             None \<Rightarrow> Inl (AppError ''Project not found'' 404)
           | Some p \<Rightarrow>
               if creatorId p \<noteq> user_id (req_user req) \<and> role (req_user req) \<noteq> ''ADMIN''
               then Inl (AppError ''Access denied. You can only get recommendations for your own projects.'' 403)
               else
                 (case aiRecommend projectId limit of
                    Inl e \<Rightarrow> Inl e
                  | Inr recs \<Rightarrow>
                      Inr \<lparr> processed_list = map (process generateVolunteerRecommendationReason) recs,
                            total = length recs,
                            anchor_id = projectId \<rparr>))"

text \<open>
  The handlers raise \<open>AppError\<close> with a status code; the specification's \<open>NotFoundError\<close> is
  the 404 and its \<open>ValidationError\<close> the 400.
\<close>

fun is_NotFoundError :: "error \<Rightarrow> bool" where
  "is_NotFoundError (AppError msg code) = (code = 404)"
| "is_NotFoundError NotFoundError = True"
| "is_NotFoundError _ = False"

fun is_ValidationError :: "error \<Rightarrow> bool" where
  "is_ValidationError (AppError msg code) = (code = 400)"
| "is_ValidationError ValidationError = True"
| "is_ValidationError _ = False"

section \<open>The matcher of the specification\<close>

text \<open>
  Modelled from the spec: the aggregate score of a factor breakdown, which the scoring
  engine of \<open>aiService\<close> (not among the sources) computes; the specification defines it
  as the sum of the five factors.
\<close>

definition aggregate :: "match_factors \<Rightarrow> real" where
  "aggregate fs = skills fs + location fs + interests fs + availability fs + experience fs"

text \<open>
  Modelled from the spec: the weights of the five factors and what makes a
  \<open>MatchFactors\<close> value well formed. The scoring engine (\<open>aiService\<close>) is not among the
  sources; the specification bounds each factor to \<open>[0, weight]\<close> with weights that sum
  to 100.
\<close>

record factor_weights =
  w_skills :: real
  w_location :: real
  w_interests :: real
  w_availability :: real
  w_experience :: real

definition well_formed_weights :: "factor_weights \<Rightarrow> bool" where
  "well_formed_weights w \<longleftrightarrow>
     0 \<le> w_skills w \<and> 0 \<le> w_location w \<and> 0 \<le> w_interests w \<and> 0 \<le> w_availability w
     \<and> 0 \<le> w_experience w
     \<and> w_skills w + w_location w + w_interests w + w_availability w + w_experience w = 100"

definition well_formed_factors :: "factor_weights \<Rightarrow> match_factors \<Rightarrow> bool" where
  "well_formed_factors w fs \<longleftrightarrow>
     well_formed_weights w
     \<and> 0 \<le> skills fs \<and> skills fs \<le> w_skills w
     \<and> 0 \<le> location fs \<and> location fs \<le> w_location w
     \<and> 0 \<le> interests fs \<and> interests fs \<le> w_interests w
     \<and> 0 \<le> availability fs \<and> availability fs \<le> w_availability w
     \<and> 0 \<le> experience fs \<and> experience fs \<le> w_experience w"

text \<open>
  Modelled from the spec: the sort key of the matcher, for an ascending stable sort. The
  specification sorts by descending aggregate score and breaks ties by most recent
  creation time, so both components are negated.
\<close>

definition rank_key :: "project match \<Rightarrow> real \<times> int" where
  "rank_key m = (- score m, - createdAt (entity m))"

text \<open>
  Modelled from the spec: one match of the matcher, the scoring engine applied to a
  volunteer and a candidate project, with the aggregate of its factors as the score.
\<close>

definition score_project :: "('vp \<Rightarrow> project \<Rightarrow> match_factors) \<Rightarrow> 'vp \<Rightarrow> project \<Rightarrow> project match" where
  "score_project engine v p =
     \<lparr> entity = p, score = aggregate (engine v p), factors = engine v p \<rparr>"

text \<open>
  Modelled from the spec: \<open>findMatchesForVolunteer\<close> of \<open>aiService\<close>, which is not among
  the sources. The candidate projects are filtered to ACTIVE status, the scoring engine
  (an argument) is applied to each, the matches are sorted by descending aggregate score
  with a stable tie-break by most recent creation time, and the result is truncated to
  \<open>limit\<close>. A non-positive \<open>limit\<close> is a \<open>ValidationError\<close>, a missing volunteer profile a
  \<open>NotFoundError\<close>.
\<close>

definition findMatchesForVolunteer ::
  "('vp \<Rightarrow> project \<Rightarrow> match_factors) \<Rightarrow> (ident \<Rightarrow> 'vp option) \<Rightarrow> project list
     \<Rightarrow> ident \<Rightarrow> int \<Rightarrow> error + project match list" where
  "findMatchesForVolunteer engine findProfile candidates volunteerId limit =
     (if limit \<le> 0 then Inl ValidationError
      else case findProfile volunteerId of
             None \<Rightarrow> Inl NotFoundError
           | Some v \<Rightarrow>
               Inr (take (nat limit)
                     (sort_key rank_key
                       (map (score_project engine v)
                         (filter (\<lambda>p. status p = ''ACTIVE'') candidates)))))"

text \<open>
  The order the specification asks of the result: a higher score first, and among equal
  scores the later creation time first.
\<close>

definition ranked_before :: "project match \<Rightarrow> project match \<Rightarrow> bool" where
  "ranked_before a b \<longleftrightarrow>
     score a > score b \<or> (score a = score b \<and> createdAt (entity a) \<ge> createdAt (entity b))"

section \<open>projectController: notifying volunteers of a new project\<close>

record volunteer_profile =
  userId :: ident
  volunteer_status :: string

datatype data_value = Str string | Num int

text \<open>The argument object of \<open>sendNotification\<close>; \<open>recipient\<close> is its field \<open>userId\<close>.\<close>

record notification =
  recipient :: ident
  notification_type :: string
  notification_title :: string
  notification_message :: string
  notification_data :: "(string \<times> data_value) list"

text \<open>The fields of a Prisma \<open>Application\<close> row that \<open>withdrawApplication\<close> reads.\<close>

record application =
  application_id :: ident
  volunteerId :: ident
  projectId :: ident
  application_status :: string

text \<open>
  What the project controller changes or calls: the two tables it writes, the calls it
  makes to \<open>aiService.recommendVolunteers\<close> and to \<open>sendNotification\<close> (each with its
  arguments, in order), and the lines it writes with \<open>console.error\<close>.
\<close>

record world =
  application_table :: "ident \<rightharpoonup> application"
  project_table :: "ident \<rightharpoonup> project"
  recommend_calls :: "(ident \<times> int) list"
  notification_calls :: "notification list"
  console_errors :: "(string \<times> error) list"

definition new_project_match :: "project \<Rightarrow> volunteer_profile match \<Rightarrow> notification" where
  "new_project_match p m =
     \<lparr> recipient = userId (entity m),
       notification_type = ''NEW_PROJECT_MATCH'',
       notification_title = ''New Project Match!'',
       notification_message =
         ''A new project \"'' @ title p @ ''\" matches your skills and interests!'',
       notification_data = [(''projectId'', Str (project_id p)),
                            (''matchScore'', Num (Math_round (score m)))] \<rparr>"

text \<open>
  The \<open>for\<close> loop over \<open>topMatches\<close>. \<open>send n\<close> says whether \<open>sendNotification\<close> throws on
  \<open>n\<close>; the first throw ends the loop.
\<close>

fun notify_each ::
  "(notification \<Rightarrow> error option) \<Rightarrow> project \<Rightarrow> volunteer_profile match list \<Rightarrow> world
     \<Rightarrow> (error + unit) \<times> world" where
  "notify_each send p [] w = (Inr (), w)"
| "notify_each send p (m # ms) w =
     (let n = new_project_match p m;
          w' = w\<lparr>notification_calls := notification_calls w @ [n]\<rparr>
      in case send n of
           Some e \<Rightarrow> (Inl e, w')
         | None \<Rightarrow> notify_each send p ms w')"

text \<open>The body of the \<open>try\<close> block of \<open>notifyRelevantVolunteers\<close>.\<close>

definition notify_try ::
  "(ident \<Rightarrow> int \<Rightarrow> error + volunteer_profile match list) \<Rightarrow> (notification \<Rightarrow> error option)
     \<Rightarrow> project \<Rightarrow> world \<Rightarrow> (error + unit) \<times> world" where
  "notify_try aiRecommend send p w =
     (let w' = w\<lparr>recommend_calls := recommend_calls w @ [(project_id p, 20)]\<rparr>
      in case aiRecommend (project_id p) 20 of
           Inl e \<Rightarrow> (Inl e, w')
         | Inr potentialVolunteers \<Rightarrow>
             (let topMatches = take 5 potentialVolunteers
              in notify_each send p topMatches w'))"

text \<open>\<open>notifyRelevantVolunteers\<close>: the \<open>try\<close> block and its \<open>catch\<close>, which logs and returns.\<close>

definition notifyRelevantVolunteers ::
  "(ident \<Rightarrow> int \<Rightarrow> error + volunteer_profile match list) \<Rightarrow> (notification \<Rightarrow> error option)
     \<Rightarrow> project \<Rightarrow> world \<Rightarrow> (error + unit) \<times> world" where
  "notifyRelevantVolunteers aiRecommend send p w =
     (case notify_try aiRecommend send p w of
        (Inl e, w') \<Rightarrow>
          (Inr (), w'\<lparr>console_errors := console_errors w' @ [(''Error notifying volunteers:'', e)]\<rparr>)
      | (Inr u, w') \<Rightarrow> (Inr u, w'))"

section \<open>projectController: creating a project\<close>

record 'b create_request =
  body :: 'b
  files :: "string list"

record create_response =
  http_status :: nat
  response_message :: string
  response_data :: project

text \<open>
  \<open>createProject\<close>. \<open>prismaCreate\<close> is \<open>prisma.project.create\<close> on the data built from the
  request body, \<open>uploadImages\<close> the upload service. \<open>this_bound\<close> says whether \<open>this\<close> is the
  controller when the handler runs: \<open>this.notifyRelevantVolunteers\<close> on an undefined
  \<open>this\<close> is a \<open>TypeError\<close>. Every throw inside the \<open>try\<close> goes to \<open>next\<close> (\<open>Inl\<close>).
\<close>

definition createProject ::
  "bool \<Rightarrow> ('b \<Rightarrow> error + project) \<Rightarrow> (string list \<Rightarrow> error + string list)
     \<Rightarrow> (ident \<Rightarrow> int \<Rightarrow> error + volunteer_profile match list) \<Rightarrow> (notification \<Rightarrow> error option)
     \<Rightarrow> 'b create_request \<Rightarrow> world \<Rightarrow> (error + create_response) \<times> world" where
  "createProject this_bound prismaCreate uploadImages aiRecommend send req w =
     (case prismaCreate (body req) of
        Inl e \<Rightarrow> (Inl e, w)
      | Inr created \<Rightarrow>
          (let w1 = w\<lparr>project_table := (project_table w)(project_id created \<mapsto> created)\<rparr>;
               uploaded =
                 (if length (files req) > 0
                  then (case uploadImages (files req) of
                          Inl e \<Rightarrow> Inl e
                        | Inr imageUrls \<Rightarrow>
                            Inr (created\<lparr>images := imageUrls\<rparr>,
                                 w1\<lparr>project_table := (project_table w1)
                                       (project_id created \<mapsto> created\<lparr>images := imageUrls\<rparr>)\<rparr>))
                  else Inr (created, w1))
           in case uploaded of
                Inl e \<Rightarrow> (Inl e, w1)
              | Inr (p, w2) \<Rightarrow>
                  if \<not> this_bound
                  then (Inl (TypeError ''Cannot read properties of undefined''), w2)
                  else
                    (case notifyRelevantVolunteers aiRecommend send p w2 of
                       (Inl e, w3) \<Rightarrow> (Inl e, w3)
                     | (Inr u, w3) \<Rightarrow>
                         (Inr \<lparr> http_status = 201,
                                response_message = ''Project created successfully'',
                                response_data = p \<rparr>, w3))))"

section \<open>projectController: withdrawing an application\<close>

record withdraw_request =
  withdraw_user :: user
  params_applicationId :: ident

definition application_withdrawn :: "application \<Rightarrow> project \<Rightarrow> notification" where
  "application_withdrawn a p =
     \<lparr> recipient = creatorId p,
       notification_type = ''APPLICATION_WITHDRAWN'',
       notification_title = ''Application Withdrawn'',
       notification_message =
         ''A volunteer has withdrawn their application for \"'' @ title p @ ''\"'',
       notification_data = [(''projectId'', Str (projectId a)),
                            (''applicationId'', Str (application_id a))] \<rparr>"

text \<open>
  \<open>withdrawApplication\<close>. The four guards run in the order of the source; only after them
  come the delete, the decrement of \<open>volunteersApplied\<close> (Prisma throws when the project
  row is missing) and the notification. \<open>Inr\<close> carries the message of the JSON response.
\<close>

definition withdrawApplication ::
  "(notification \<Rightarrow> error option) \<Rightarrow> withdraw_request \<Rightarrow> world \<Rightarrow> (error + string) \<times> world" where
  "withdrawApplication send req w =
     (let applicationId = params_applicationId req;
          volunteer_id = user_id (withdraw_user req)
      in if role (withdraw_user req) \<noteq> ''VOLUNTEER''
         then (Inl (AppError ''Only volunteers can withdraw applications'' 403), w)
         else case application_table w applicationId of
                None \<Rightarrow> (Inl (AppError ''Application not found'' 404), w)
              | Some a \<Rightarrow>
                  if volunteerId a \<noteq> volunteer_id
                  then (Inl (AppError ''Access denied'' 403), w)
                  else if application_status a = ''ACCEPTED''
                  then (Inl (AppError ''Cannot withdraw an accepted application. Please contact the organization.'' 400), w)
                  else
                    (let w1 = w\<lparr>application_table := (application_table w)(applicationId := None)\<rparr>
                     in case project_table w1 (projectId a) of
                          None \<Rightarrow> (Inl (Thrown ''Record to update not found''), w1)
                        | Some p \<Rightarrow>
                            (let w2 = w1\<lparr>project_table := (project_table w1)
                                           (projectId a \<mapsto> p\<lparr>volunteersApplied := volunteersApplied p - 1\<rparr>)\<rparr>;
                                 n = application_withdrawn a p;
                                 w3 = w2\<lparr>notification_calls := notification_calls w2 @ [n]\<rparr>
                             in case send n of
                                  Some e \<Rightarrow> (Inl e, w3)
                                | None \<Rightarrow> (Inr ''Application withdrawn successfully'', w3))))"

section \<open>Concrete inputs\<close>

text \<open>
  Small inputs on which the models are evaluated: a factor breakdown, four projects (three
  of them ACTIVE, two of those with equal scores), a scoring engine that reads only
  \<open>volunteersNeeded\<close>, one volunteer profile and one accepted application.
\<close>

definition ex_factors :: match_factors where
  "ex_factors = \<lparr> skills = 0, location = 0, interests = 0, availability = 13, experience = 9 \<rparr>"

definition ex_volunteer :: volunteer_profile where
  "ex_volunteer = \<lparr> userId = ''v1'', volunteer_status = ''AVAILABLE'' \<rparr>"

definition ex_rec :: "volunteer_profile match" where
  "ex_rec = \<lparr> entity = ex_volunteer, score = 22, factors = ex_factors \<rparr>"

definition ex_weights :: factor_weights where
  "ex_weights = \<lparr> w_skills = 30, w_location = 25, w_interests = 20, w_availability = 15,
                  w_experience = 10 \<rparr>"

definition mk_project :: "ident \<Rightarrow> string \<Rightarrow> int \<Rightarrow> int \<Rightarrow> project" where
  "mk_project i st created needed =
     \<lparr> project_id = i, title = ''Clinic'', category = ''Healthcare'', status = st,
       createdAt = created, creatorId = ''ngo1'', volunteersNeeded = needed,
       volunteersApplied = 10, estimatedHours = Some 50, requiredSkills = [''s1'', ''s2''],
       applications = [''a1'', ''a2'', ''a3'', ''a4'', ''a5'', ''a6'', ''a7'', ''a8'', ''a9'', ''a10''],
       images = [] \<rparr>"

definition pA :: project where "pA = mk_project ''pA'' ''ACTIVE'' 100 12"
definition pB :: project where "pB = mk_project ''pB'' ''ACTIVE'' 200 12"
definition pC :: project where "pC = mk_project ''pC'' ''CLOSED'' 300 30"
definition pD :: project where "pD = mk_project ''pD'' ''ACTIVE'' 50 20"

definition ex_candidates :: "project list" where
  "ex_candidates = [pA, pB, pC, pD]"

definition ex_engine :: "unit \<Rightarrow> project \<Rightarrow> match_factors" where
  "ex_engine v p = \<lparr> skills = real_of_int (volunteersNeeded p), location = 0, interests = 0,
                     availability = 0, experience = 0 \<rparr>"

definition ex_findProfile :: "ident \<Rightarrow> unit option" where
  "ex_findProfile i = (if i = ''v1'' then Some () else None)"

definition ex_findMatches :: "ident \<Rightarrow> int \<Rightarrow> error + project match list" where
  "ex_findMatches = findMatchesForVolunteer ex_engine ex_findProfile ex_candidates"

definition ex_reason :: "project match \<Rightarrow> string" where
  "ex_reason m = ''Good match''"

definition ex_request :: "string \<Rightarrow> int option \<Rightarrow> ai_request" where
  "ex_request r l = \<lparr> req_user = \<lparr> user_id = ''v1'', role = r \<rparr>, query_limit = l,
                      params_projectId = ''pA'' \<rparr>"

text \<open>A service answering with one match whose score is a quarter.\<close>

definition ex_quarter :: "ident \<Rightarrow> int \<Rightarrow> error + project match list" where
  "ex_quarter i l = Inr [\<lparr> entity = pA, score = 1 / 4,
                          factors = \<lparr> skills = 1 / 4, location = 0, interests = 0,
                                      availability = 0, experience = 0 \<rparr> \<rparr>]"

definition ex_recommend :: "ident \<Rightarrow> int \<Rightarrow> error + volunteer_profile match list" where
  "ex_recommend i l = Inr [ex_rec]"

definition ex_application :: application where
  "ex_application = \<lparr> application_id = ''a1'', volunteerId = ''v1'', projectId = ''pA'',
                      application_status = ''ACCEPTED'' \<rparr>"

definition ex_world :: world where
  "ex_world = \<lparr> application_table = [''a1'' \<mapsto> ex_application],
                project_table = [''pA'' \<mapsto> pA],
                recommend_calls = [], notification_calls = [], console_errors = [] \<rparr>"

definition ex_withdraw :: withdraw_request where
  "ex_withdraw = \<lparr> withdraw_user = \<lparr> user_id = ''v1'', role = ''VOLUNTEER'' \<rparr>,
                   params_applicationId = ''a1'' \<rparr>"

text \<open>
  Collaborators of the project controller: a recommender that answers with seven
  volunteers in score order, one that is down, a sender that always throws, one that
  throws for the third volunteer only, and a creation request without files.
\<close>

definition ex_scored :: "ident \<Rightarrow> real \<Rightarrow> volunteer_profile match" where
  "ex_scored i s = \<lparr> entity = \<lparr> userId = i, volunteer_status = ''AVAILABLE'' \<rparr>, score = s,
                     factors = ex_factors \<rparr>"

definition ex_seven :: "ident \<Rightarrow> int \<Rightarrow> error + volunteer_profile match list" where
  "ex_seven i l = Inr [ex_scored ''v1'' 90, ex_scored ''v2'' 80, ex_scored ''v3'' 70,
                       ex_scored ''v4'' 60, ex_scored ''v5'' 50, ex_scored ''v6'' 40,
                       ex_scored ''v7'' 30]"

definition ex_recommend_down :: "ident \<Rightarrow> int \<Rightarrow> error + volunteer_profile match list" where
  "ex_recommend_down i l = Inl (Thrown ''matching service unavailable'')"

definition ex_send_fails :: "notification \<Rightarrow> error option" where
  "ex_send_fails n = Some (Thrown ''notification service unavailable'')"

definition ex_send_third_throws :: "notification \<Rightarrow> error option" where
  "ex_send_third_throws n =
     (if recipient n = ''v3'' then Some (Thrown ''notification service unavailable'') else None)"

definition ex_send_ok :: "notification \<Rightarrow> error option" where
  "ex_send_ok n = None"

definition ex_create :: "unit \<Rightarrow> error + project" where
  "ex_create b = Inr pA"

definition ex_upload :: "string list \<Rightarrow> error + string list" where
  "ex_upload fs = Inr fs"

definition ex_create_request :: "unit create_request" where
  "ex_create_request = \<lparr> body = (), files = [] \<rparr>"

text \<open>A service answering with one match of score 0.015 and skills factor 2.675.\<close>

definition ex_cents :: "ident \<Rightarrow> int \<Rightarrow> error + project match list" where
  "ex_cents i l = Inr [\<lparr> entity = pA, score = 15 / 1000,
                        factors = \<lparr> skills = 2675 / 1000, location = 0, interests = 0,
                                    availability = 0, experience = 0 \<rparr> \<rparr>]"

definition ex_no_profile :: "ident \<Rightarrow> unit option" where
  "ex_no_profile i = None"

definition ex_findProject :: "ident \<Rightarrow> project option" where
  "ex_findProject i = (if i = ''pA'' then Some pA else None)"

section \<open>The recommendation explainer\<close>

text \<open>
  C1 (as stated in the specification, refuted). The claim orders the triggered phrases
  skills, location, interests, availability, experience. With only the availability and
  experience thresholds exceeded, the source puts the experience phrase first, while the
  claimed order puts the availability phrase first.
\<close>

theorem explainer_spec_order_counterexample:
  "generateVolunteerRecommendationReason ex_rec
     = ''Experienced volunteer, Available for commitment''
   \<and> explain_in_spec_order (factors ex_rec)
     = ''Available for commitment, Experienced volunteer''
   \<and> generateVolunteerRecommendationReason ex_rec \<noteq> explain_in_spec_order (factors ex_rec)"
  by (simp add: generateVolunteerRecommendationReason_def explain_in_spec_order_def push_if_def
      ex_rec_def ex_factors_def)

text \<open>
  C1 (amended). The explainer is a function of the factors alone: it joins with a comma
  and a space the phrases of the exceeded thresholds in the order skills (above 15),
  location (above 20), experience (above 8), availability (above 12); the interests
  factor has no phrase and never changes the result; the default phrase is returned
  exactly when none of the four thresholds is exceeded.
\<close>

theorem explainer_source_order:
  "generateVolunteerRecommendationReason r =
     (let triggered = map snd (filter fst
            [(skills (factors r) > 15, ''Has required skills''),
             (location (factors r) > 20, ''Located nearby''),
             (experience (factors r) > 8, ''Experienced volunteer''),
             (availability (factors r) > 12, ''Available for commitment'')])
      in if triggered = [] then ''Well-matched volunteer'' else join '', '' triggered)
   \<and> generateVolunteerRecommendationReason (r\<lparr>factors := (factors r)\<lparr>interests := x\<rparr>\<rparr>)
       = generateVolunteerRecommendationReason r
   \<and> (generateVolunteerRecommendationReason r = ''Well-matched volunteer'' \<longleftrightarrow>
        \<not> skills (factors r) > 15 \<and> \<not> location (factors r) > 20
        \<and> \<not> experience (factors r) > 8 \<and> \<not> availability (factors r) > 12)"
  by (simp add: generateVolunteerRecommendationReason_def push_if_def Let_def)

theorem explainer_source_order_witness:
  "generateVolunteerRecommendationReason ex_rec
     = join '', '' [''Experienced volunteer'', ''Available for commitment'']
   \<and> generateVolunteerRecommendationReason (ex_rec\<lparr>factors := (factors ex_rec)\<lparr>interests := 100\<rparr>\<rparr>)
     = generateVolunteerRecommendationReason ex_rec
   \<and> generateVolunteerRecommendationReason ex_rec \<noteq> ''Well-matched volunteer''"
  using explainer_source_order [of ex_rec 100]
  by (simp add: ex_rec_def ex_factors_def)

section \<open>Impact prediction\<close>

lemma rawImpactScore_bounds: "50 \<le> rawImpactScore p \<and> rawImpactScore p \<le> 100"
  by (simp add: rawImpactScore_def Let_def)

text \<open>
  C9. For every project, \<open>calculateImpactPrediction\<close> returns the running score clamped
  to the interval from 0 to 100, and the label is HIGH exactly when the unclamped score
  exceeds 75, MEDIUM exactly when it exceeds 50 but not 75, and LOW otherwise.
\<close>

theorem impact_prediction_clamped_and_labelled:
  "impactScore (calculateImpactPrediction p) = min 100 (max 0 (rawImpactScore p))
   \<and> 0 \<le> impactScore (calculateImpactPrediction p)
   \<and> impactScore (calculateImpactPrediction p) \<le> 100
   \<and> (prediction (calculateImpactPrediction p) = HIGH \<longleftrightarrow> rawImpactScore p > 75)
   \<and> (prediction (calculateImpactPrediction p) = MEDIUM \<longleftrightarrow>
        rawImpactScore p > 50 \<and> \<not> rawImpactScore p > 75)
   \<and> (prediction (calculateImpactPrediction p) = LOW \<longleftrightarrow> \<not> rawImpactScore p > 50)"
  by (simp add: calculateImpactPrediction_def Let_def)

lemma toLowerCase_Healthcare: "toLowerCase ''Healthcare'' = ''healthcare''"
  by code_simp

lemma rawImpactScore_pA: "rawImpactScore pA = 95"
  by (simp add: rawImpactScore_def pA_def mk_project_def Let_def applicationRate_def
      toLowerCase_Healthcare highImpactCategories_def)

theorem impact_prediction_clamped_and_labelled_witness:
  "rawImpactScore pA = 95
   \<and> impactScore (calculateImpactPrediction pA) = 95
   \<and> prediction (calculateImpactPrediction pA) = HIGH"
  using impact_prediction_clamped_and_labelled [of pA]
  by (simp add: rawImpactScore_pA)

section \<open>Double arithmetic\<close>

lemma round_half_even_error: "\<bar>real_of_int (round_half_even y) - y\<bar> \<le> 1 / 2"
  unfolding round_half_even_def Let_def by (auto simp: abs_if) linarith+

lemma set_binade_candidates: "set binade_candidates = {- 1100..<1100}"
proof (intro set_eqI iffI)
  fix e :: int
  assume "e \<in> set binade_candidates"
  then show "e \<in> {- 1100..<1100}" by (auto simp: binade_candidates_def)
next
  fix e :: int
  assume a: "e \<in> {- 1100..<1100}"
  show "e \<in> set binade_candidates"
  proof (cases "0 \<le> e")
    case True
    with a have "nat e \<in> {0..<1100}" "e = int (nat e)" by auto
    then show ?thesis unfolding binade_candidates_def by (auto intro!: bexI [of _ "nat e"])
  next
    case False
    with a have "nat (- e - 1) \<in> {0..<1100}" "e = - int (nat (- e - 1)) - 1" by auto
    then show ?thesis
      unfolding binade_candidates_def by (auto intro!: bexI [of _ "nat (- e - 1)"])
  qed
qed

lemma binade_sound: "binade y = Some e \<Longrightarrow> 2 powi e \<le> y \<and> y < 2 powi (e + 1)"
  by (auto simp: binade_def find_Some_iff)

lemma binade_unique:
  assumes "2 powi e \<le> (y::real)" "y < 2 powi (e + 1)" "2 powi e' \<le> y" "y < 2 powi (e' + 1)"
  shows "e = e'"
proof (rule ccontr)
  assume "e \<noteq> e'"
  then consider "e + 1 \<le> e'" | "e' + 1 \<le> e" by linarith
  then show False
  proof cases
    case 1
    then have "(2::real) powi (e + 1) \<le> 2 powi e'" by (intro power_int_increasing) auto
    with assms show False by linarith
  next
    case 2
    then have "(2::real) powi (e' + 1) \<le> 2 powi e" by (intro power_int_increasing) auto
    with assms show False by linarith
  qed
qed

lemma binade_eq:
  assumes "2 powi e \<le> y" "y < 2 powi (e + 1)" "- 1100 \<le> e" "e < 1100"
  shows "binade y = Some e"
proof (cases "binade y")
  case None
  with assms show ?thesis
    by (auto simp: binade_def find_None_iff set_binade_candidates)
next
  case (Some e')
  from binade_sound [OF Some] assms(1,2) have "e = e'" by (intro binade_unique [of e y e']) auto
  with Some show ?thesis by simp
qed

lemma floor_log2_bounds:
  assumes "0 < (y::real)"
  shows "2 powi \<lfloor>log 2 y\<rfloor> \<le> y \<and> y < 2 powi (\<lfloor>log 2 y\<rfloor> + 1)"
proof -
  let ?e = "\<lfloor>log 2 y\<rfloor>"
  have p: "(2::real) powr real_of_int ?e = 2 powi ?e"
    "(2::real) powr real_of_int (?e + 1) = 2 powi (?e + 1)"
    by (rule powr_real_of_int'; simp)+
  have "2 powr real_of_int ?e \<le> y \<and> y < 2 powr real_of_int (?e + 1)"
    using floor_log_eq_powr_iff [of y 2 ?e] assms by (simp del: of_int_add)
  then show ?thesis by (simp only: p)
qed

text \<open>The search for the binade fails only below \<open>2 ^ -1100\<close> and from \<open>2 ^ 1100\<close> on.\<close>

lemma binade_None:
  assumes "binade y = None" "0 < y"
  shows "y < 2 powi (- 1100) \<or> 2 powi 1100 \<le> y"
proof -
  define e where "e = \<lfloor>log 2 y\<rfloor>"
  have b: "2 powi e \<le> y" "y < 2 powi (e + 1)"
    using floor_log2_bounds [OF assms(2)] by (simp_all add: e_def)
  have out: "\<not> (- 1100 \<le> e \<and> e < 1100)"
    using assms(1) b binade_eq [of e y] by auto
  show ?thesis
  proof (cases "e < - 1100")
    case True
    then have "e + 1 \<le> - 1100" by linarith
    then have "(2::real) powi (e + 1) \<le> 2 powi (- 1100)" by (intro power_int_increasing) auto
    with b show ?thesis by linarith
  next
    case False
    with out have "1100 \<le> e" by linarith
    then have "(2::real) powi 1100 \<le> 2 powi e" by (intro power_int_increasing) auto
    with b show ?thesis by linarith
  qed
qed

lemma round_scaled_error:
  assumes "0 < (s::real)"
  shows "\<bar>real_of_int (round_half_even (x / s)) * s - x\<bar> \<le> s / 2"
proof -
  have "real_of_int (round_half_even (x / s)) * s - x
          = (real_of_int (round_half_even (x / s)) - x / s) * s"
    using assms by (simp add: field_simps)
  then have "\<bar>real_of_int (round_half_even (x / s)) * s - x\<bar>
          = \<bar>real_of_int (round_half_even (x / s)) - x / s\<bar> * s"
    using assms by (simp add: abs_mult)
  also have "\<dots> \<le> (1 / 2) * s"
    using assms round_half_even_error [of "x / s"] by (intro mult_right_mono) auto
  finally show ?thesis by simp
qed

lemma ulp_bound:
  assumes "2 powi e \<le> \<bar>x::real\<bar>"
  shows "2 powi (max (e - 52) (- 1074)) / 2 \<le> \<bar>x\<bar> / 2 ^ 53 + 2 powi (- 1075)"
proof (cases "e - 52 \<le> - 1074")
  case True
  then have "max (e - 52) (- 1074) = - 1074" by simp
  moreover have "(2::real) powi (- 1074) / 2 = 2 powi (- 1075)"
    by (simp add: power_int_minus field_simps)
  ultimately show ?thesis by simp
next
  case False
  then have m: "max (e - 52) (- 1074) = e - 52" by simp
  have "(2::real) powi (e - 52) / 2 = 2 powi e / 2 ^ 53"
    by (simp add: power_int_diff)
  also have "\<dots> \<le> \<bar>x\<bar> / 2 ^ 53" using assms by (intro divide_right_mono) auto
  finally show ?thesis using m by simp
qed

text \<open>
  A finite result of \<open>to_double\<close> is within half a unit in the last place of its argument:
  a relative error of at most \<open>2 ^ -53\<close>, or \<open>2 ^ -1075\<close> among the subnormals.
\<close>

lemma to_double_error:
  assumes "to_double x = Finite d"
  shows "\<bar>d - x\<bar> \<le> \<bar>x\<bar> / 2 ^ 53 + 2 powi (- 1075)"
proof (cases "binade \<bar>x\<bar>")
  case None
  with assms have small: "\<bar>x\<bar> < 1" and d: "d = 0"
    by (auto simp: to_double_def split: if_splits)
  show ?thesis
  proof (cases "x = 0")
    case True
    with d show ?thesis by simp
  next
    case False
    then have "0 < \<bar>x\<bar>" by simp
    from binade_None [OF None this] small have "\<bar>x\<bar> < 2 powi (- 1100)"
      by (auto simp: power_int_minus)
    also have "(2::real) powi (- 1100) \<le> 2 powi (- 1075)"
      by (intro power_int_increasing) auto
    finally show ?thesis using d by simp
  qed
next
  case (Some e)
  define u where "u = max (e - 52) (- 1074)"
  define r where "r = real_of_int (round_half_even (x / 2 powi u)) * 2 powi u"
  from assms Some have "d = r"
    by (auto simp: to_double_def Let_def u_def r_def split: if_splits)
  moreover have "\<bar>r - x\<bar> \<le> 2 powi u / 2"
    unfolding r_def by (rule round_scaled_error) simp
  moreover have "2 powi u / 2 \<le> \<bar>x\<bar> / 2 ^ 53 + 2 powi (- 1075)"
    unfolding u_def using binade_sound [OF Some] by (intro ulp_bound) simp
  ultimately show ?thesis by linarith
qed

lemma to_double_range:
  assumes "to_double x = Finite d"
  shows "\<bar>d\<bar> < 2 powi 1024"
  using assms by (auto simp: to_double_def Let_def split: option.splits if_splits)

lemma to_double_finite:
  assumes "\<bar>x\<bar> \<le> 2 powi 1018"
  shows "\<exists>d. to_double x = Finite d"
proof (cases "binade \<bar>x\<bar>")
  case None
  show ?thesis
  proof (cases "\<bar>x\<bar> < 1")
    case True
    with None show ?thesis by (simp add: to_double_def)
  next
    case False
    then have "0 < \<bar>x\<bar>" by simp
    from binade_None [OF None this] False have "2 powi 1100 \<le> \<bar>x\<bar>"
      by (auto simp: power_int_minus field_simps)
    moreover have "(2::real) powi 1018 < 2 powi 1100" by (intro power_int_strict_increasing) auto
    ultimately show ?thesis using assms by linarith
  qed
next
  case (Some e)
  define u where "u = max (e - 52) (- 1074)"
  define r where "r = real_of_int (round_half_even (x / 2 powi u)) * 2 powi u"
  have "2 powi e \<le> \<bar>x\<bar>" using binade_sound [OF Some] by simp
  with assms have "(2::real) powi e \<le> 2 powi 1018" by linarith
  then have "e \<le> 1018" by (rule power_int_le_imp_le_exp [rotated]) simp_all
  then have "u \<le> 966" by (simp add: u_def)
  then have "(2::real) powi u \<le> 2 powi 966" by (intro power_int_increasing) auto
  moreover have "\<bar>r - x\<bar> \<le> 2 powi u / 2"
    unfolding r_def by (rule round_scaled_error) simp
  ultimately have "\<bar>r\<bar> \<le> 2 powi 1018 + 2 powi 966 / 2" using assms by linarith
  also have "\<dots> < (2::real) powi 1024" by simp
  finally have "\<not> 2 powi 1024 \<le> \<bar>r\<bar>" by simp
  with Some show ?thesis by (simp add: to_double_def Let_def u_def r_def)
qed

text \<open>Evaluating \<open>to_double\<close> in the normal range, once the binade is known.\<close>

lemma to_double_normal:
  assumes "2 powi e \<le> \<bar>x\<bar>" "\<bar>x\<bar> < 2 powi (e + 1)" "- 1022 \<le> e" "e \<le> 1023"
  shows "to_double x =
     (let r = real_of_int (round_half_even (x / 2 powi (e - 52))) * 2 powi (e - 52)
      in if 2 powi 1024 \<le> \<bar>r\<bar> then (if 0 < x then PosInfinity else NegInfinity) else Finite r)"
proof -
  have "binade \<bar>x\<bar> = Some e" using assms by (intro binade_eq) auto
  moreover have "max (e - 52) (- 1074) = e - 52" using assms by simp
  ultimately show ?thesis by (simp add: to_double_def Let_def)
qed

lemma to_double_0: "to_double 0 = Finite 0"
proof -
  have "binade 0 = None" by (simp add: binade_def find_None_iff not_le)
  then show ?thesis by (simp add: to_double_def)
qed

lemma to_double_values:
  "to_double (15 / 1000) = Finite (1080863910568919 / 2 ^ 56)"
  "to_double (1080863910568919 / 2 ^ 56 * 100) = Finite (3 / 2)"
  using to_double_normal [of "- 7" "15 / 1000"]
    to_double_normal [of 0 "1080863910568919 / 2 ^ 56 * 100"]
  by (simp_all add: round_half_even_def Let_def)

text \<open>
  The handlers' rounding at 0.015 (3/200), 2.675 (107/40) and 0.25, and rounding 0.25 to
  one place. The
  doubles of 0.015 and 2.675 lie below them, their products with 100 round to 1.5 and
  267.5, and \<open>Math.round\<close> takes these halves upwards.
\<close>

lemma round_scaled_values:
  "round_scaled 100 (3 / 200) = Finite (5764607523034235 / 2 ^ 58)"
  "round_scaled 100 (107 / 40) = Finite (6034823500676465 / 2 ^ 51)"
  "round_scaled 100 (1 / 4) = Finite (1 / 4)"
  "round_scaled 10 (1 / 4) = Finite (5404319552844595 / 2 ^ 54)"
  using to_double_normal [of "- 7" "15 / 1000"]
    to_double_normal [of 0 "1080863910568919 / 2 ^ 56 * 100"]
    to_double_normal [of "- 6" "2 / 100"]
    to_double_normal [of 1 "2675 / 1000"]
    to_double_normal [of 8 "3011782250804019 / 2 ^ 50 * 100"]
    to_double_normal [of 1 "268 / 100"]
    to_double_normal [of "- 2" "1 / 4"]
    to_double_normal [of 4 25]
    to_double_normal [of 1 "5 / 2"]
    to_double_normal [of "- 2" "3 / 10"]
  by (simp_all add: round_scaled_def round_half_even_def Let_def Math_round_def)

section \<open>Rounding in the match handlers\<close>

lemma round_100_places: "round_100 x = round_to_places 2 x"
  by (simp add: round_100_def round_to_places_def)

lemma process_rounds:
  "matchScore (process reason m) = round_to_places 2 (score m)
   \<and> rounded_skills (matchFactors (process reason m)) = round_to_places 2 (skills (factors m))
   \<and> rounded_location (matchFactors (process reason m)) = round_to_places 2 (location (factors m))
   \<and> rounded_interests (matchFactors (process reason m)) = round_to_places 2 (interests (factors m))
   \<and> rounded_availability (matchFactors (process reason m))
       = round_to_places 2 (availability (factors m))
   \<and> rounded_experience (matchFactors (process reason m))
       = round_to_places 2 (experience (factors m))"
  by (simp add: process_def round_100_places)

text \<open>
  What rounding to two places means in doubles. When the operand is the finite double
  \<open>x'\<close> and the product \<open>x' * 100\<close> is a finite double \<open>p\<close>, the result is a finite double
  \<open>d\<close>: the double nearest to \<open>k / 100\<close> for the integer \<open>k = Math.round(p)\<close>, which is
  within a half of \<open>p\<close>, which in turn is the double nearest to the exact product.
\<close>

lemma round_to_two_places_meaning:
  assumes "to_double x = Finite x'" "to_double (x' * 100) = Finite p"
  shows "\<exists>d. round_to_places 2 x = Finite d
     \<and> round_to_places 2 x = to_double (real_of_int (Math_round p) / 100)
     \<and> \<bar>d - real_of_int (Math_round p) / 100\<bar>
         \<le> \<bar>real_of_int (Math_round p) / 100\<bar> / 2 ^ 53 + 2 powi (- 1075)
     \<and> \<bar>real_of_int (Math_round p) - p\<bar> \<le> 1 / 2
     \<and> \<bar>p - x' * 100\<bar> \<le> \<bar>x' * 100\<bar> / 2 ^ 53 + 2 powi (- 1075)
     \<and> \<bar>x' - x\<bar> \<le> \<bar>x\<bar> / 2 ^ 53 + 2 powi (- 1075)"
proof -
  define k where "k = Math_round p"
  have r: "round_to_places 2 x = to_double (real_of_int k / 100)"
    using assms by (simp add: round_to_places_def round_scaled_def k_def)
  have kp: "\<bar>real_of_int k - p\<bar> \<le> 1 / 2"
    unfolding k_def Math_round_def by linarith
  have "\<bar>p\<bar> < 2 powi 1024" using assms(2) by (rule to_double_range)
  with kp have "\<bar>real_of_int k\<bar> \<le> 2 powi 1024 + 1 / 2" by linarith
  then have "\<bar>real_of_int k / 100\<bar> \<le> (2 powi 1024 + 1 / 2) / 100" by simp
  also have "\<dots> \<le> (2::real) powi 1018" by simp
  finally obtain d where d: "to_double (real_of_int k / 100) = Finite d"
    using to_double_finite by blast
  from to_double_error [OF d] to_double_error [OF assms(2)] to_double_error [OF assms(1)] r d kp
  show ?thesis unfolding k_def by auto
qed

lemma getMatches_Inr:
  "getMatches fp fm reason req = Inr b \<Longrightarrow>
     \<exists>ms. fm (user_id (req_user req)) (limit_or_default (query_limit req)) = Inr ms
          \<and> processed_list b = map (process reason) ms"
  by (auto simp: getMatches_def Let_def split: if_splits option.splits sum.splits)

lemma recommendVolunteers_Inr:
  "recommendVolunteers fj fr req = Inr b \<Longrightarrow>
     \<exists>ms. fr (params_projectId req) (limit_or_default (query_limit req)) = Inr ms
          \<and> processed_list b = map (process generateVolunteerRecommendationReason) ms"
  by (auto simp: recommendVolunteers_def Let_def split: if_splits option.splits sum.splits)

text \<open>
  C3 (as stated in the specification, refuted). The claim rounds the aggregate score to
  one decimal place. For a match of score 0.25 the handler answers 0.25 itself, while
  rounding 0.25 to one place gives the double of 0.3.
\<close>

theorem aggregate_one_decimal_counterexample:
  "map matchScore (processed_list (projr
      (getMatches ex_findProfile ex_quarter ex_reason (ex_request ''VOLUNTEER'' (Some 5)))))
     = [Finite (1 / 4)]
   \<and> round_to_places 1 (1 / 4) = Finite (5404319552844595 / 2 ^ 54)
   \<and> Finite (1 / 4) \<noteq> round_to_places 1 (1 / 4)"
  by (simp add: getMatches_def ex_findProfile_def ex_quarter_def ex_request_def
      limit_or_default_def process_def round_100_def round_to_places_def round_scaled_values)

text \<open>
  C3 (amended). For every returned match of either handler, the aggregate score and each
  of the five factor sub-scores are rounded to two decimal places in double arithmetic:
  each is \<open>Math.round(x * 100) / 100\<close> of the value \<open>x\<close> the service returned, that is, for a
  finite product, the double nearest to \<open>k / 100\<close> where \<open>k\<close> is the integer nearest to the
  double product \<open>x * 100\<close> (halves upwards).
\<close>

theorem handlers_round_to_two_places:
  "(matchScore (process reason m) = round_to_places 2 (score m)
    \<and> rounded_skills (matchFactors (process reason m)) = round_to_places 2 (skills (factors m))
    \<and> rounded_location (matchFactors (process reason m))
        = round_to_places 2 (location (factors m))
    \<and> rounded_interests (matchFactors (process reason m))
        = round_to_places 2 (interests (factors m))
    \<and> rounded_availability (matchFactors (process reason m))
        = round_to_places 2 (availability (factors m))
    \<and> rounded_experience (matchFactors (process reason m))
        = round_to_places 2 (experience (factors m)))
   \<and> (to_double x = Finite x' \<and> to_double (x' * 100) = Finite p \<longrightarrow>
        (\<exists>d. round_to_places 2 x = Finite d
           \<and> round_to_places 2 x = to_double (real_of_int (Math_round p) / 100)
           \<and> \<bar>d - real_of_int (Math_round p) / 100\<bar>
               \<le> \<bar>real_of_int (Math_round p) / 100\<bar> / 2 ^ 53 + 2 powi (- 1075)
           \<and> \<bar>real_of_int (Math_round p) - p\<bar> \<le> 1 / 2
           \<and> \<bar>p - x' * 100\<bar> \<le> \<bar>x' * 100\<bar> / 2 ^ 53 + 2 powi (- 1075)
           \<and> \<bar>x' - x\<bar> \<le> \<bar>x\<bar> / 2 ^ 53 + 2 powi (- 1075)))
   \<and> (getMatches fp fm reason req = Inr b \<longrightarrow>
        (\<exists>ms. fm (user_id (req_user req)) (limit_or_default (query_limit req)) = Inr ms
              \<and> processed_list b = map (process reason) ms))
   \<and> (recommendVolunteers fj fr req' = Inr b' \<longrightarrow>
        (\<exists>rs. fr (params_projectId req') (limit_or_default (query_limit req')) = Inr rs
              \<and> processed_list b' = map (process generateVolunteerRecommendationReason) rs))"
proof (intro conjI impI)
  assume "to_double x = Finite x' \<and> to_double (x' * 100) = Finite p"
  then show "\<exists>d. round_to_places 2 x = Finite d
           \<and> round_to_places 2 x = to_double (real_of_int (Math_round p) / 100)
           \<and> \<bar>d - real_of_int (Math_round p) / 100\<bar>
               \<le> \<bar>real_of_int (Math_round p) / 100\<bar> / 2 ^ 53 + 2 powi (- 1075)
           \<and> \<bar>real_of_int (Math_round p) - p\<bar> \<le> 1 / 2
           \<and> \<bar>p - x' * 100\<bar> \<le> \<bar>x' * 100\<bar> / 2 ^ 53 + 2 powi (- 1075)
           \<and> \<bar>x' - x\<bar> \<le> \<bar>x\<bar> / 2 ^ 53 + 2 powi (- 1075)"
    using round_to_two_places_meaning [of x x' p] by blast
next
  assume "getMatches fp fm reason req = Inr b"
  then show "\<exists>ms. fm (user_id (req_user req)) (limit_or_default (query_limit req)) = Inr ms
              \<and> processed_list b = map (process reason) ms"
    by (rule getMatches_Inr)
next
  assume "recommendVolunteers fj fr req' = Inr b'"
  then show "\<exists>rs. fr (params_projectId req') (limit_or_default (query_limit req')) = Inr rs
              \<and> processed_list b' = map (process generateVolunteerRecommendationReason) rs"
    by (rule recommendVolunteers_Inr)
qed (simp_all add: process_rounds)

theorem handlers_round_to_two_places_witness:
  "to_double (15 / 1000) = Finite (1080863910568919 / 2 ^ 56)
   \<and> to_double (1080863910568919 / 2 ^ 56 * 100) = Finite (3 / 2)
   \<and> Math_round (3 / 2) = 2
   \<and> round_to_places 2 (15 / 1000) = to_double (real_of_int (Math_round (3 / 2)) / 100)
   \<and> round_to_places 2 (15 / 1000) = Finite (5764607523034235 / 2 ^ 58)
   \<and> \<not> isl (getMatches ex_findProfile ex_cents ex_reason (ex_request ''VOLUNTEER'' (Some 5)))
   \<and> map matchScore (processed_list (projr
        (getMatches ex_findProfile ex_cents ex_reason (ex_request ''VOLUNTEER'' (Some 5)))))
       = [Finite (5764607523034235 / 2 ^ 58)]
   \<and> map (\<lambda>x. rounded_skills (matchFactors x)) (processed_list (projr
        (getMatches ex_findProfile ex_cents ex_reason (ex_request ''VOLUNTEER'' (Some 5)))))
       = [Finite (6034823500676465 / 2 ^ 51)]
   \<and> \<not> isl (recommendVolunteers ex_findProject ex_recommend (ex_request ''ADMIN'' None))"
proof -
  let ?g = "getMatches ex_findProfile ex_cents ex_reason (ex_request ''VOLUNTEER'' (Some 5))"
  let ?r = "recommendVolunteers ex_findProject ex_recommend (ex_request ''ADMIN'' None)"
  let ?m = "\<lparr> entity = pA, score = 15 / 1000,
              factors = \<lparr> skills = 2675 / 1000, location = 0, interests = 0,
                          availability = 0, experience = 0 \<rparr> \<rparr>"
  have g: "?g = Inr (projr ?g)"
    by (simp add: getMatches_def ex_findProfile_def ex_cents_def ex_request_def)
  have r: "?r = Inr (projr ?r)"
    by (simp add: recommendVolunteers_def ex_findProject_def ex_recommend_def ex_request_def)
  from g have g': "\<not> isl ?g" by (metis sum.disc(2))
  from r have r': "\<not> isl ?r" by (metis sum.disc(2))
  note p = to_double_values
  have k: "Math_round (3 / 2) = 2" by (simp add: Math_round_def)
  note t = handlers_round_to_two_places [of ex_reason ?m "15 / 1000" "1080863910568919 / 2 ^ 56"
      "3 / 2" ex_findProfile ex_cents "ex_request ''VOLUNTEER'' (Some 5)" "projr ?g"
      ex_findProject ex_recommend "ex_request ''ADMIN'' None" "projr ?r"]
  from t p
  have v0: "round_to_places 2 (15 / 1000) = to_double (real_of_int (Math_round (3 / 2)) / 100)"
    by blast
  have v: "round_to_places 2 (15 / 1000) = Finite (5764607523034235 / 2 ^ 58)"
    by (simp add: round_to_places_def round_scaled_values)
  have s: "round_to_places 2 (2675 / 1000) = Finite (6034823500676465 / 2 ^ 51)"
    by (simp add: round_to_places_def round_scaled_values)
  from t g obtain ms where ms: "ex_cents (user_id (req_user (ex_request ''VOLUNTEER'' (Some 5))))
        (limit_or_default (query_limit (ex_request ''VOLUNTEER'' (Some 5)))) = Inr ms"
      "processed_list (projr ?g) = map (process ex_reason) ms"
    by blast
  from ms(1) have "ms = [?m]" by (simp add: ex_cents_def)
  with ms(2) have l: "processed_list (projr ?g) = [process ex_reason ?m]" by simp
  from t have "matchScore (process ex_reason ?m) = round_to_places 2 (score ?m)"
    "rounded_skills (matchFactors (process ex_reason ?m)) = round_to_places 2 (skills (factors ?m))"
    by blast+
  then have e: "matchScore (process ex_reason ?m) = round_to_places 2 (15 / 1000)"
    "rounded_skills (matchFactors (process ex_reason ?m)) = round_to_places 2 (2675 / 1000)"
    by simp_all
  have c5: "map matchScore (processed_list (projr ?g)) = [Finite (5764607523034235 / 2 ^ 58)]"
    by (simp only: l list.map e v)
  have c6: "map (\<lambda>x. rounded_skills (matchFactors x)) (processed_list (projr ?g))
       = [Finite (6034823500676465 / 2 ^ 51)]"
    by (simp only: l list.map e s)
  from p k v0 v g' c5 c6 r' show ?thesis by (intro conjI)
qed

section \<open>The limit of a match request\<close>

text \<open>
  C2 (as stated in the specification, refuted). The claim makes a request with
  \<open>limit = 0\<close> fail with a \<open>ValidationError\<close>. Even over a matcher that rejects every
  non-positive limit, \<open>getMatches\<close> answers such a request with the three ACTIVE projects:
  the zero is replaced by 10 before the matcher is called.
\<close>

theorem zero_limit_counterexample:
  "ex_findMatches ''v1'' 0 = Inl ValidationError
   \<and> \<not> isl (getMatches ex_findProfile ex_findMatches ex_reason (ex_request ''VOLUNTEER'' (Some 0)))
   \<and> map (project_id \<circ> processed_entity) (processed_list (projr
        (getMatches ex_findProfile ex_findMatches ex_reason (ex_request ''VOLUNTEER'' (Some 0)))))
     = [''pD'', ''pB'', ''pA'']"
  by (simp add: getMatches_def ex_request_def limit_or_default_def
      ex_findMatches_def findMatchesForVolunteer_def ex_findProfile_def ex_candidates_def
      pA_def pB_def pC_def pD_def mk_project_def score_project_def ex_engine_def aggregate_def
      rank_key_def less_eq_prod_def process_def)

text \<open>
  C2 (amended). Neither handler validates the limit. A limit of 0, like a missing or
  non-numeric one, is replaced by the default 10, so the handler answers exactly as for
  \<open>limit = 10\<close>; every other parsed limit, a negative one included, is handed unchanged
  to the matching service; and a validation error leaves a handler only when the service
  raised it for that limit.
\<close>

theorem limit_defaulted_not_validated:
  "getMatches fp fm reason (req\<lparr>query_limit := Some 0\<rparr>)
     = getMatches fp fm reason (req\<lparr>query_limit := Some 10\<rparr>)
   \<and> getMatches fp fm reason (req\<lparr>query_limit := None\<rparr>)
     = getMatches fp fm reason (req\<lparr>query_limit := Some 10\<rparr>)
   \<and> recommendVolunteers fj fr (req\<lparr>query_limit := Some 0\<rparr>)
     = recommendVolunteers fj fr (req\<lparr>query_limit := Some 10\<rparr>)
   \<and> recommendVolunteers fj fr (req\<lparr>query_limit := None\<rparr>)
     = recommendVolunteers fj fr (req\<lparr>query_limit := Some 10\<rparr>)
   \<and> (n \<noteq> 0 \<longrightarrow> limit_or_default (Some n) = n)
   \<and> (getMatches fp fm reason req = Inl e \<and> is_ValidationError e \<longrightarrow>
        fm (user_id (req_user req)) (limit_or_default (query_limit req)) = Inl e)
   \<and> (recommendVolunteers fj fr req = Inl e \<and> is_ValidationError e \<longrightarrow>
        fr (params_projectId req) (limit_or_default (query_limit req)) = Inl e)"
proof (intro conjI impI)
  assume "getMatches fp fm reason req = Inl e \<and> is_ValidationError e"
  then show "fm (user_id (req_user req)) (limit_or_default (query_limit req)) = Inl e"
    by (auto simp: getMatches_def Let_def split: if_splits option.splits sum.splits)
next
  assume "recommendVolunteers fj fr req = Inl e \<and> is_ValidationError e"
  then show "fr (params_projectId req) (limit_or_default (query_limit req)) = Inl e"
    by (auto simp: recommendVolunteers_def Let_def split: if_splits option.splits sum.splits)
qed (simp_all add: getMatches_def recommendVolunteers_def limit_or_default_def Let_def
      split: option.splits)

theorem limit_defaulted_not_validated_witness:
  "limit_or_default (Some (- 3)) = - 3
   \<and> getMatches ex_findProfile ex_findMatches ex_reason (ex_request ''VOLUNTEER'' (Some (- 3)))
     = Inl ValidationError
   \<and> is_ValidationError ValidationError
   \<and> ex_findMatches ''v1'' (- 3) = Inl ValidationError
   \<and> getMatches ex_findProfile ex_findMatches ex_reason (ex_request ''VOLUNTEER'' (Some 0))
     = getMatches ex_findProfile ex_findMatches ex_reason (ex_request ''VOLUNTEER'' (Some 10))"
proof -
  let ?req = "ex_request ''VOLUNTEER'' (Some (- 3))"
  have s: "ex_findMatches ''v1'' (- 3) = Inl ValidationError"
    by (simp add: ex_findMatches_def findMatchesForVolunteer_def)
  have g: "getMatches ex_findProfile ex_findMatches ex_reason ?req = Inl ValidationError"
    by (simp add: getMatches_def ex_request_def limit_or_default_def s ex_findProfile_def)
  have z: "?req\<lparr>query_limit := Some 0\<rparr> = ex_request ''VOLUNTEER'' (Some 0)"
    "?req\<lparr>query_limit := Some 10\<rparr> = ex_request ''VOLUNTEER'' (Some 10)"
    by (simp_all add: ex_request_def)
  note t = limit_defaulted_not_validated [of ex_findProfile ex_findMatches ex_reason ?req
      ex_findProject ex_recommend "- 3" ValidationError]
  from t have l: "limit_or_default (Some (- 3)) = - 3" by simp
  from t have e: "getMatches ex_findProfile ex_findMatches ex_reason (?req\<lparr>query_limit := Some 0\<rparr>)
     = getMatches ex_findProfile ex_findMatches ex_reason (?req\<lparr>query_limit := Some 10\<rparr>)"
    by (rule conjunct1)
  from l g s e show ?thesis by (simp only: z is_ValidationError.simps simp_thms)
qed

section \<open>A match request without its anchor entity\<close>

text \<open>
  C6 (as stated in the specification, refuted). The claim gives every request whose
  anchor entity is missing a \<open>NotFoundError\<close>. A user of role NGO who has no volunteer
  profile and asks for matches is turned away by the role check, with status 403, before
  the profile is looked up.
\<close>

theorem missing_anchor_counterexample:
  "ex_no_profile (user_id (req_user (ex_request ''NGO'' (Some 5)))) = None
   \<and> getMatches ex_no_profile ex_findMatches ex_reason (ex_request ''NGO'' (Some 5))
     = Inl (AppError ''Only volunteers can access matches'' 403)
   \<and> \<not> is_NotFoundError (AppError ''Only volunteers can access matches'' 403)"
  by (simp add: getMatches_def ex_request_def ex_no_profile_def)

text \<open>
  C6 (amended). For every match request whose anchor entity (the volunteer profile of
  the user, or the project) does not exist: when the request passes the handler's role
  check, the handler fails with the 404 \<open>AppError\<close>, whatever the matching service would
  answer, and so returns no result; when it fails the role check, it is rejected with
  the 403 \<open>AppError\<close>, which is not a not-found error, whatever the lookup of the anchor
  would give.
\<close>

theorem missing_anchor_not_found:
  "(role (req_user req) \<noteq> ''VOLUNTEER'' \<longrightarrow>
      getMatches fp fm reason req = Inl (AppError ''Only volunteers can access matches'' 403)
      \<and> \<not> is_NotFoundError (AppError ''Only volunteers can access matches'' 403))
   \<and> (role (req_user req) = ''VOLUNTEER'' \<and> fp (user_id (req_user req)) = None \<longrightarrow>
      getMatches fp fm reason req
        = Inl (AppError ''Volunteer profile not found. Please complete your profile first.'' 404)
      \<and> is_NotFoundError (AppError ''Volunteer profile not found. Please complete your profile first.'' 404))
   \<and> (role (req_user req) \<notin> set [''NGO'', ''GOVERNMENT'', ''ADMIN''] \<longrightarrow>
      recommendVolunteers fj fr req
        = Inl (AppError ''Only organizations can access volunteer recommendations'' 403)
      \<and> \<not> is_NotFoundError
            (AppError ''Only organizations can access volunteer recommendations'' 403))
   \<and> (role (req_user req) \<in> set [''NGO'', ''GOVERNMENT'', ''ADMIN'']
      \<and> fj (params_projectId req) = None \<longrightarrow>
      recommendVolunteers fj fr req = Inl (AppError ''Project not found'' 404)
      \<and> is_NotFoundError (AppError ''Project not found'' 404))"
  by (simp add: getMatches_def recommendVolunteers_def Let_def)

theorem missing_anchor_not_found_witness:
  "role (req_user (ex_request ''VOLUNTEER'' (Some 5))) = ''VOLUNTEER''
   \<and> ex_findProfile ''v2'' = None
   \<and> getMatches ex_findProfile ex_findMatches ex_reason
        ((ex_request ''VOLUNTEER'' (Some 5))\<lparr>req_user := \<lparr>user_id = ''v2'', role = ''VOLUNTEER''\<rparr>\<rparr>)
     = Inl (AppError ''Volunteer profile not found. Please complete your profile first.'' 404)
   \<and> ex_findProject ''pZ'' = None
   \<and> recommendVolunteers ex_findProject ex_recommend
        (\<lparr>req_user = \<lparr>user_id = ''ngo1'', role = ''NGO''\<rparr>, query_limit = None,
          params_projectId = ''pZ''\<rparr>)
     = Inl (AppError ''Project not found'' 404)
   \<and> role (req_user (ex_request ''NGO'' (Some 5))) \<noteq> ''VOLUNTEER''
   \<and> getMatches ex_no_profile ex_findMatches ex_reason (ex_request ''NGO'' (Some 5))
     = Inl (AppError ''Only volunteers can access matches'' 403)
   \<and> role (req_user (ex_request ''VOLUNTEER'' None)) \<notin> set [''NGO'', ''GOVERNMENT'', ''ADMIN'']
   \<and> recommendVolunteers ex_findProject ex_recommend
        ((ex_request ''VOLUNTEER'' None)\<lparr>params_projectId := ''pZ''\<rparr>)
     = Inl (AppError ''Only organizations can access volunteer recommendations'' 403)"
  using
    missing_anchor_not_found [of
      "(ex_request ''VOLUNTEER'' (Some 5))\<lparr>req_user := \<lparr>user_id = ''v2'', role = ''VOLUNTEER''\<rparr>\<rparr>"
      ex_findProfile ex_findMatches ex_reason ex_findProject ex_recommend]
    missing_anchor_not_found [of
      "\<lparr>req_user = \<lparr>user_id = ''ngo1'', role = ''NGO''\<rparr>, query_limit = None,
          params_projectId = ''pZ''\<rparr>"
      ex_findProfile ex_findMatches ex_reason ex_findProject ex_recommend]
    missing_anchor_not_found [of "ex_request ''NGO'' (Some 5)"
      ex_no_profile ex_findMatches ex_reason ex_findProject ex_recommend]
    missing_anchor_not_found [of "(ex_request ''VOLUNTEER'' None)\<lparr>params_projectId := ''pZ''\<rparr>"
      ex_findProfile ex_findMatches ex_reason ex_findProject ex_recommend]
  by (simp add: ex_request_def ex_findProfile_def ex_findProject_def)

section \<open>The matcher of the specification\<close>

lemma rank_key_le: "rank_key a \<le> rank_key b \<longleftrightarrow> ranked_before a b"
  by (auto simp: rank_key_def ranked_before_def less_eq_prod_def)

lemma sorted_ranked: "sorted_wrt ranked_before (sort_key rank_key xs)"
proof -
  have "sorted (map rank_key (sort_key rank_key xs))" by (rule sorted_sort_key)
  then show ?thesis by (simp add: sorted_wrt_map rank_key_le)
qed

text \<open>
  C4. For a volunteer whose profile exists and a positive limit, \<open>findMatchesForVolunteer\<close>
  returns matches of ACTIVE candidate projects only, each scored by the scoring engine,
  sorted by descending aggregate score with ties in descending creation time, at most
  \<open>limit\<close> of them, and all ACTIVE candidates when there are no more than \<open>limit\<close>.
\<close>

theorem findMatchesForVolunteer_ranked_and_truncated:
  assumes "findProfile vid = Some v" and "0 < limit"
  shows "\<exists>ms. findMatchesForVolunteer engine findProfile candidates vid limit = Inr ms
     \<and> (\<forall>m\<in>set ms. status (entity m) = ''ACTIVE'' \<and> entity m \<in> set candidates
                     \<and> m = score_project engine v (entity m))
     \<and> sorted_wrt ranked_before ms
     \<and> length ms \<le> nat limit
     \<and> (length (filter (\<lambda>p. status p = ''ACTIVE'') candidates) \<le> nat limit \<longrightarrow>
          mset (map entity ms) = mset (filter (\<lambda>p. status p = ''ACTIVE'') candidates))"
proof -
  let ?act = "filter (\<lambda>p. status p = ''ACTIVE'') candidates"
  let ?all = "sort_key rank_key (map (score_project engine v) ?act)"
  let ?ms = "take (nat limit) ?all"
  have res: "findMatchesForVolunteer engine findProfile candidates vid limit = Inr ?ms"
    using assms by (simp add: findMatchesForVolunteer_def)
  have mem: "\<forall>m\<in>set ?ms. status (entity m) = ''ACTIVE'' \<and> entity m \<in> set candidates
                     \<and> m = score_project engine v (entity m)"
  proof
    fix m assume "m \<in> set ?ms"
    then have "m \<in> set ?all" by (rule in_set_takeD)
    then obtain p where "p \<in> set ?act" "m = score_project engine v p" by auto
    then show "status (entity m) = ''ACTIVE'' \<and> entity m \<in> set candidates
                     \<and> m = score_project engine v (entity m)"
      by (simp add: score_project_def)
  qed
  have srt: "sorted_wrt ranked_before ?ms"
    by (rule sorted_wrt_take) (rule sorted_ranked)
  have len: "length ?ms \<le> nat limit" by simp
  have ent: "map entity (map (score_project engine v) ?act) = ?act"
    by (simp add: score_project_def comp_def)
  have all: "length ?act \<le> nat limit \<longrightarrow> mset (map entity ?ms) = mset ?act"
  proof
    assume "length ?act \<le> nat limit"
    then have "?ms = ?all" by simp
    then have "mset (map entity ?ms) = image_mset entity (mset ?all)" by simp
    also have "\<dots> = image_mset entity (mset (map (score_project engine v) ?act))"
      by (simp only: mset_sort)
    also have "\<dots> = mset (map entity (map (score_project engine v) ?act))"
      by (simp only: mset_map)
    also have "\<dots> = mset ?act" by (simp only: ent)
    finally show "mset (map entity ?ms) = mset ?act" .
  qed
  from res mem srt len all show ?thesis by blast
qed

lemma ex_findMatches_2:
  "findMatchesForVolunteer ex_engine ex_findProfile ex_candidates ''v1'' 2
     = Inr [score_project ex_engine () pD, score_project ex_engine () pB]"
  by (simp add: findMatchesForVolunteer_def ex_findProfile_def ex_candidates_def
      pA_def pB_def pC_def pD_def mk_project_def score_project_def ex_engine_def aggregate_def
      rank_key_def less_eq_prod_def)

theorem findMatchesForVolunteer_ranked_and_truncated_witness:
  "ex_findProfile ''v1'' = Some ()
   \<and> (0::int) < 2
   \<and> findMatchesForVolunteer ex_engine ex_findProfile ex_candidates ''v1'' 2
       = Inr [score_project ex_engine () pD, score_project ex_engine () pB]
   \<and> sorted_wrt ranked_before [score_project ex_engine () pD, score_project ex_engine () pB]
   \<and> score (score_project ex_engine () pD) = 20
   \<and> score (score_project ex_engine () pB) = 12"
proof -
  have h1: "ex_findProfile ''v1'' = Some ()" by (simp add: ex_findProfile_def)
  have h2: "(0::int) < 2" by simp
  from findMatchesForVolunteer_ranked_and_truncated
         [of ex_findProfile "''v1''" "()" 2 ex_engine ex_candidates, OF h1 h2]
  have "sorted_wrt ranked_before [score_project ex_engine () pD, score_project ex_engine () pB]"
    by (simp only: ex_findMatches_2 sum.inject) blast
  moreover have "score (score_project ex_engine () pD) = 20"
    "score (score_project ex_engine () pB) = 12"
    by (simp_all add: score_project_def ex_engine_def aggregate_def pD_def pB_def mk_project_def)
  ultimately show ?thesis using h1 h2 ex_findMatches_2 by simp
qed

lemma findMatchesForVolunteer_members:
  "findMatchesForVolunteer engine findProfile candidates vid limit = Inr ms \<Longrightarrow>
   findProfile vid = Some v \<Longrightarrow> m \<in> set ms \<Longrightarrow>
     \<exists>p\<in>set candidates. m = score_project engine v p"
  by (auto simp: findMatchesForVolunteer_def split: if_splits dest!: in_set_takeD)

text \<open>
  C5. For every well-formed factor breakdown (each factor between 0 and its weight, the
  weights summing to 100), the aggregate score is the sum of the five factors, no factor
  is negative, and the aggregate lies between 0 and 100; and so it is for the score of
  every match the matcher returns when the scoring engine is well formed on the
  candidates.
\<close>

theorem aggregate_of_well_formed_factors:
  "(well_formed_factors w fs \<longrightarrow>
      aggregate fs = skills fs + location fs + interests fs + availability fs + experience fs
      \<and> 0 \<le> skills fs \<and> 0 \<le> location fs \<and> 0 \<le> interests fs \<and> 0 \<le> availability fs
      \<and> 0 \<le> experience fs
      \<and> 0 \<le> aggregate fs \<and> aggregate fs \<le> 100)
   \<and> ((\<forall>p\<in>set candidates. well_formed_factors w (engine v p))
       \<and> findProfile vid = Some v
       \<and> findMatchesForVolunteer engine findProfile candidates vid limit = Inr ms \<longrightarrow>
       (\<forall>m\<in>set ms.
          score m = skills (factors m) + location (factors m) + interests (factors m)
                    + availability (factors m) + experience (factors m)
          \<and> 0 \<le> score m \<and> score m \<le> 100))"
proof (intro conjI impI ballI)
  fix m
  assume a: "(\<forall>p\<in>set candidates. well_formed_factors w (engine v p))
       \<and> findProfile vid = Some v
       \<and> findMatchesForVolunteer engine findProfile candidates vid limit = Inr ms"
    and m: "m \<in> set ms"
  from a m findMatchesForVolunteer_members [of engine findProfile candidates vid limit ms v m]
  obtain p where p: "p \<in> set candidates" "m = score_project engine v p" by blast
  with a have wf: "well_formed_factors w (engine v p)" by blast
  from p(2) have s: "score m = aggregate (factors m)" "factors m = engine v p"
    by (simp_all add: score_project_def)
  from wf s show "score m = skills (factors m) + location (factors m) + interests (factors m)
                    + availability (factors m) + experience (factors m)"
    by (simp add: aggregate_def)
  from wf s show "0 \<le> score m"
    by (simp add: well_formed_factors_def well_formed_weights_def aggregate_def)
  from wf s show "score m \<le> 100"
    by (simp add: well_formed_factors_def well_formed_weights_def aggregate_def)
qed (simp_all add: well_formed_factors_def well_formed_weights_def aggregate_def)

theorem aggregate_of_well_formed_factors_witness:
  "well_formed_factors ex_weights ex_factors
   \<and> aggregate ex_factors = 22
   \<and> 0 \<le> aggregate ex_factors \<and> aggregate ex_factors \<le> 100
   \<and> list_all (\<lambda>p. well_formed_factors ex_weights (ex_engine () p)) [pA, pB]
   \<and> ex_findProfile ''v1'' = Some ()
   \<and> findMatchesForVolunteer ex_engine ex_findProfile [pA, pB] ''v1'' 1
       = Inr [score_project ex_engine () pB]
   \<and> score (score_project ex_engine () pB) = 12
   \<and> 0 \<le> score (score_project ex_engine () pB)
   \<and> score (score_project ex_engine () pB) \<le> 100"
proof -
  have h: "well_formed_factors ex_weights ex_factors"
    by (simp add: well_formed_factors_def well_formed_weights_def ex_weights_def ex_factors_def)
  have a: "aggregate ex_factors = 22" by (simp add: aggregate_def ex_factors_def)
  have c: "list_all (\<lambda>p. well_formed_factors ex_weights (ex_engine () p)) [pA, pB]"
    by (simp add: well_formed_factors_def well_formed_weights_def ex_weights_def ex_engine_def
        pA_def pB_def mk_project_def)
  have f: "ex_findProfile ''v1'' = Some ()" by (simp add: ex_findProfile_def)
  have r: "findMatchesForVolunteer ex_engine ex_findProfile [pA, pB] ''v1'' 1
       = Inr [score_project ex_engine () pB]"
    by (simp add: findMatchesForVolunteer_def ex_findProfile_def
      pA_def pB_def mk_project_def score_project_def ex_engine_def aggregate_def
      rank_key_def less_eq_prod_def)
  have s: "score (score_project ex_engine () pB) = 12"
    by (simp add: score_project_def ex_engine_def aggregate_def pB_def mk_project_def)
  note t = aggregate_of_well_formed_factors [of ex_weights ex_factors "[pA, pB]" ex_engine "()"
      ex_findProfile "''v1''" 1 "[score_project ex_engine () pB]"]
  from t h have b: "0 \<le> aggregate ex_factors \<and> aggregate ex_factors \<le> 100" by blast
  from t c f r have "0 \<le> score (score_project ex_engine () pB)
     \<and> score (score_project ex_engine () pB) \<le> 100"
    by (simp add: list_all_iff)
  with h a b c f r s show ?thesis by (intro conjI) simp_all
qed

section \<open>Notifying volunteers of a new project\<close>

text \<open>The loop writes nothing but the list of notification calls.\<close>

lemma notify_each_frame:
  "console_errors (snd (notify_each send p ms w)) = console_errors w
   \<and> recommend_calls (snd (notify_each send p ms w)) = recommend_calls w
   \<and> application_table (snd (notify_each send p ms w)) = application_table w
   \<and> project_table (snd (notify_each send p ms w)) = project_table w"
  by (induction ms arbitrary: w) (auto simp: Let_def split: option.splits)

text \<open>A throw that leaves the loop is the throw of one of the sends.\<close>

lemma notify_each_Inl:
  "fst (notify_each send p ms w) = Inl e \<Longrightarrow> \<exists>m\<in>set ms. send (new_project_match p m) = Some e"
  by (induction ms arbitrary: w) (auto simp: Let_def split: option.splits)

lemma notify_each_throws:
  "\<exists>m\<in>set ms. send (new_project_match p m) \<noteq> None \<Longrightarrow> isl (fst (notify_each send p ms w))"
  by (induction ms arbitrary: w) (auto simp: Let_def split: option.splits)

lemma notify_each_all_sent:
  "\<forall>m\<in>set ms. send (new_project_match p m) = None \<Longrightarrow>
     notify_each send p ms w
       = (Inr (), w\<lparr>notification_calls := notification_calls w @ map (new_project_match p) ms\<rparr>)"
  by (induction ms arbitrary: w) (auto simp: Let_def)

lemma notify_each_prefix:
  "\<exists>k\<le>length ms. notification_calls (snd (notify_each send p ms w))
       = notification_calls w @ map (new_project_match p) (take k ms)"
proof (induction ms arbitrary: w)
  case Nil
  then show ?case by simp
next
  case (Cons m ms)
  let ?w = "w\<lparr>notification_calls := notification_calls w @ [new_project_match p m]\<rparr>"
  show ?case
  proof (cases "send (new_project_match p m)")
    case (Some e)
    then have "notification_calls (snd (notify_each send p (m # ms) w))
        = notification_calls w @ map (new_project_match p) (take 1 (m # ms))"
      by (simp add: Let_def)
    then show ?thesis by (intro exI [of _ 1]) simp
  next
    case None
    from Cons.IH [of ?w] obtain k where k: "k \<le> length ms"
      "notification_calls (snd (notify_each send p ms ?w))
         = notification_calls ?w @ map (new_project_match p) (take k ms)"
      by blast
    with None have "notification_calls (snd (notify_each send p (m # ms) w))
        = notification_calls w @ map (new_project_match p) (take (Suc k) (m # ms))"
      by (simp add: Let_def)
    with k(1) show ?thesis by (intro exI [of _ "Suc k"]) simp
  qed
qed

lemma notifyRelevantVolunteers_returns:
  "fst (notifyRelevantVolunteers aiRecommend send p w) = Inr ()"
  by (simp add: notifyRelevantVolunteers_def split: prod.splits sum.splits)

lemma createProject_response:
  "fst (createProject this_bound prismaCreate uploadImages aiRecommend send req w)
     = (case prismaCreate (body req) of
          Inl e \<Rightarrow> Inl e
        | Inr created \<Rightarrow>
            (case (if length (files req) > 0
                   then (case uploadImages (files req) of
                           Inl e \<Rightarrow> Inl e
                         | Inr imageUrls \<Rightarrow> Inr (created\<lparr>images := imageUrls\<rparr>))
                   else Inr created) of
               Inl e \<Rightarrow> Inl e
             | Inr p \<Rightarrow>
                 if \<not> this_bound then Inl (TypeError ''Cannot read properties of undefined'')
                 else Inr \<lparr> http_status = 201,
                            response_message = ''Project created successfully'',
                            response_data = p \<rparr>))"
proof -
  have n: "\<And>p w'. (case notifyRelevantVolunteers aiRecommend send p w' of
                 (Inl e, w3) \<Rightarrow> (Inl e, w3)
               | (Inr u, w3) \<Rightarrow>
                   (Inr \<lparr> http_status = 201, response_message = ''Project created successfully'',
                          response_data = p \<rparr>, w3))
       = (Inr \<lparr> http_status = 201, response_message = ''Project created successfully'',
                response_data = p \<rparr>, snd (notifyRelevantVolunteers aiRecommend send p w'))"
    using notifyRelevantVolunteers_returns [of aiRecommend send]
    by (auto split: prod.splits sum.splits) (metis fst_conv sum.distinct(1))+
  show ?thesis
    unfolding createProject_def Let_def n
    by (auto split: sum.splits)
qed

text \<open>
  When the handler runs without its controller as \<open>this\<close>, the project is created and
  the request then fails before the notification step is entered.
\<close>

lemma createProject_unbound_this:
  "prismaCreate (body req) = Inr created \<Longrightarrow> files req = [] \<Longrightarrow>
     createProject False prismaCreate uploadImages aiRecommend send req w
       = (Inl (TypeError ''Cannot read properties of undefined''),
          w\<lparr>project_table := (project_table w)(project_id created \<mapsto> created)\<rparr>)"
  by (simp add: createProject_def)

text \<open>
  C7. Whatever the recommender and \<open>sendNotification\<close> do, \<open>notifyRelevantVolunteers\<close>
  returns normally; an error of the recommender or of a send is written to the console
  by the catch; and the response of \<open>createProject\<close> is the same for every behaviour of
  the recommender and of \<open>sendNotification\<close>.
\<close>

theorem notification_failures_are_caught_and_logged:
  "fst (notifyRelevantVolunteers aiRecommend send p w) = Inr ()
   \<and> (aiRecommend (project_id p) 20 = Inl e \<longrightarrow>
        console_errors (snd (notifyRelevantVolunteers aiRecommend send p w))
          = console_errors w @ [(''Error notifying volunteers:'', e)])
   \<and> (aiRecommend (project_id p) 20 = Inr rs
        \<and> (\<exists>m\<in>set (take 5 rs). send (new_project_match p m) \<noteq> None) \<longrightarrow>
        (\<exists>m\<in>set (take 5 rs). \<exists>e'. send (new_project_match p m) = Some e'
           \<and> console_errors (snd (notifyRelevantVolunteers aiRecommend send p w))
               = console_errors w @ [(''Error notifying volunteers:'', e')]))
   \<and> fst (createProject this_bound prismaCreate uploadImages aiRecommend send req w)
       = fst (createProject this_bound prismaCreate uploadImages aiRecommend' send' req w)"
proof (intro conjI impI)
  show "fst (notifyRelevantVolunteers aiRecommend send p w) = Inr ()"
    by (rule notifyRelevantVolunteers_returns)
next
  assume "aiRecommend (project_id p) 20 = Inl e"
  then show "console_errors (snd (notifyRelevantVolunteers aiRecommend send p w))
          = console_errors w @ [(''Error notifying volunteers:'', e)]"
    by (simp add: notifyRelevantVolunteers_def notify_try_def)
next
  assume a: "aiRecommend (project_id p) 20 = Inr rs
        \<and> (\<exists>m\<in>set (take 5 rs). send (new_project_match p m) \<noteq> None)"
  let ?w = "w\<lparr>recommend_calls := recommend_calls w @ [(project_id p, 20)]\<rparr>"
  let ?r = "notify_each send p (take 5 rs) ?w"
  from a have "isl (fst ?r)" by (simp add: notify_each_throws)
  then obtain e' where e': "fst ?r = Inl e'" by (auto simp: isl_def)
  from notify_each_Inl [OF e'] obtain m where m: "m \<in> set (take 5 rs)"
    "send (new_project_match p m) = Some e'" by blast
  have "console_errors (snd ?r) = console_errors ?w"
    using notify_each_frame [of send p "take 5 rs" ?w] by blast
  with a e' have "console_errors (snd (notifyRelevantVolunteers aiRecommend send p w))
               = console_errors w @ [(''Error notifying volunteers:'', e')]"
    by (cases ?r) (simp add: notifyRelevantVolunteers_def notify_try_def)
  with m show "\<exists>m\<in>set (take 5 rs). \<exists>e'. send (new_project_match p m) = Some e'
           \<and> console_errors (snd (notifyRelevantVolunteers aiRecommend send p w))
               = console_errors w @ [(''Error notifying volunteers:'', e')]"
    by blast
next
  show "fst (createProject this_bound prismaCreate uploadImages aiRecommend send req w)
       = fst (createProject this_bound prismaCreate uploadImages aiRecommend' send' req w)"
    by (simp only: createProject_response)
qed

theorem notification_failures_are_caught_and_logged_witness:
  "ex_recommend_down (project_id pA) 20 = Inl (Thrown ''matching service unavailable'')
   \<and> console_errors (snd (notifyRelevantVolunteers ex_recommend_down ex_send_ok pA ex_world))
       = [(''Error notifying volunteers:'', Thrown ''matching service unavailable'')]
   \<and> ex_recommend (project_id pA) 20 = Inr [ex_rec]
   \<and> ex_send_fails (new_project_match pA ex_rec) = Some (Thrown ''notification service unavailable'')
   \<and> fst (notifyRelevantVolunteers ex_recommend ex_send_fails pA ex_world) = Inr ()
   \<and> console_errors (snd (notifyRelevantVolunteers ex_recommend ex_send_fails pA ex_world))
       = [(''Error notifying volunteers:'', Thrown ''notification service unavailable'')]
   \<and> fst (createProject True ex_create ex_upload ex_recommend ex_send_fails ex_create_request ex_world)
       = fst (createProject True ex_create ex_upload ex_recommend ex_send_ok ex_create_request ex_world)
   \<and> fst (createProject True ex_create ex_upload ex_recommend ex_send_ok ex_create_request ex_world)
       = Inr \<lparr> http_status = 201, response_message = ''Project created successfully'',
               response_data = pA \<rparr>"
proof -
  note down = notification_failures_are_caught_and_logged
    [of ex_recommend_down ex_send_ok pA ex_world "Thrown ''matching service unavailable''"
        "[]" True ex_create ex_upload ex_create_request ex_recommend ex_send_fails]
  note fails = notification_failures_are_caught_and_logged
    [of ex_recommend ex_send_fails pA ex_world "Thrown ''x''" "[ex_rec]"
        True ex_create ex_upload ex_create_request ex_recommend ex_send_ok]
  have d: "ex_recommend_down (project_id pA) 20 = Inl (Thrown ''matching service unavailable'')"
    by (simp add: ex_recommend_down_def)
  have r: "ex_recommend (project_id pA) 20 = Inr [ex_rec]"
    by (simp add: ex_recommend_def)
  have s: "ex_send_fails (new_project_match pA ex_rec)
             = Some (Thrown ''notification service unavailable'')"
    by (simp add: ex_send_fails_def)
  have w: "console_errors ex_world = []" by (simp add: ex_world_def)
  from down d w
  have c1: "console_errors (snd (notifyRelevantVolunteers ex_recommend_down ex_send_ok pA ex_world))
       = [(''Error notifying volunteers:'', Thrown ''matching service unavailable'')]"
    by simp
  from fails r s w
  have c2: "console_errors (snd (notifyRelevantVolunteers ex_recommend ex_send_fails pA ex_world))
       = [(''Error notifying volunteers:'', Thrown ''notification service unavailable'')]"
    by (simp add: ex_send_fails_def)
  from fails have c3: "fst (notifyRelevantVolunteers ex_recommend ex_send_fails pA ex_world) = Inr ()"
    by (rule conjunct1)
  from fails have c4:
    "fst (createProject True ex_create ex_upload ex_recommend ex_send_fails ex_create_request ex_world)
       = fst (createProject True ex_create ex_upload ex_recommend ex_send_ok ex_create_request ex_world)"
    by blast
  have c5: "fst (createProject True ex_create ex_upload ex_recommend ex_send_ok ex_create_request ex_world)
       = Inr \<lparr> http_status = 201, response_message = ''Project created successfully'',
               response_data = pA \<rparr>"
    by (simp add: createProject_response ex_create_def ex_create_request_def)
  from d c1 r s c3 c2 c4 c5 show ?thesis by (intro conjI)
qed

lemma snd_catch_calls:
  "recommend_calls (snd (case r of
          (Inl e, w') \<Rightarrow>
            (Inr (), w'\<lparr>console_errors := console_errors w' @ [(l, e)]\<rparr>)
        | (Inr u, w') \<Rightarrow> (Inr u, w'))) = recommend_calls (snd r)
   \<and> notification_calls (snd (case r of
          (Inl e, w') \<Rightarrow>
            (Inr (), w'\<lparr>console_errors := console_errors w' @ [(l, e)]\<rparr>)
        | (Inr u, w') \<Rightarrow> (Inr u, w'))) = notification_calls (snd r)"
  by (auto split: prod.splits sum.splits)

text \<open>
  The calls of the loop, exactly: the notifications of the first \<open>k\<close> matches, where the
  sends before the last of them returned, and the loop stopped short of the whole list
  only because that last send threw.
\<close>

lemma notify_each_exact:
  "\<exists>k\<le>length ms.
      notification_calls (snd (notify_each send p ms w))
        = notification_calls w @ map (new_project_match p) (take k ms)
      \<and> (\<forall>m\<in>set (take (k - 1) ms). send (new_project_match p m) = None)
      \<and> (k < length ms \<longrightarrow> 0 < k \<and> send (new_project_match p (ms ! (k - 1))) \<noteq> None)"
proof (induction ms arbitrary: w)
  case Nil
  then show ?case by simp
next
  case (Cons m ms)
  let ?w = "w\<lparr>notification_calls := notification_calls w @ [new_project_match p m]\<rparr>"
  show ?case
  proof (cases "send (new_project_match p m)")
    case (Some e)
    then have "notification_calls (snd (notify_each send p (m # ms) w))
        = notification_calls w @ map (new_project_match p) (take 1 (m # ms))"
      by (simp add: Let_def)
    with Some show ?thesis by (intro exI [of _ 1]) simp
  next
    case None
    from Cons.IH [of ?w] obtain k where k: "k \<le> length ms"
      "notification_calls (snd (notify_each send p ms ?w))
         = notification_calls ?w @ map (new_project_match p) (take k ms)"
      "\<forall>x\<in>set (take (k - 1) ms). send (new_project_match p x) = None"
      "k < length ms \<longrightarrow> 0 < k \<and> send (new_project_match p (ms ! (k - 1))) \<noteq> None"
      by blast
    from None k(2) have c: "notification_calls (snd (notify_each send p (m # ms) w))
        = notification_calls w @ map (new_project_match p) (take (Suc k) (m # ms))"
      by (simp add: Let_def)
    have a: "\<forall>x\<in>set (take (Suc k - 1) (m # ms)). send (new_project_match p x) = None"
      using None k(3) by (cases k) auto
    have b: "Suc k < length (m # ms) \<longrightarrow>
        0 < Suc k \<and> send (new_project_match p ((m # ms) ! (Suc k - 1))) \<noteq> None"
      using k(4) by (cases k) auto
    from k(1) c a b show ?thesis by (intro exI [of _ "Suc k"]) simp
  qed
qed

lemma notifyRelevantVolunteers_calls:
  "recommend_calls (snd (notifyRelevantVolunteers aiRecommend send p w))
     = recommend_calls w @ [(project_id p, 20)]
   \<and> (aiRecommend (project_id p) 20 = Inl e \<longrightarrow>
        notification_calls (snd (notifyRelevantVolunteers aiRecommend send p w))
          = notification_calls w)
   \<and> (aiRecommend (project_id p) 20 = Inr rs \<longrightarrow>
        (\<exists>k\<le>length (take 5 rs).
           notification_calls (snd (notifyRelevantVolunteers aiRecommend send p w))
             = notification_calls w @ map (new_project_match p) (take k rs)
           \<and> (\<forall>m\<in>set (take (k - 1) rs). send (new_project_match p m) = None)
           \<and> (k < length (take 5 rs) \<longrightarrow>
                0 < k \<and> send (new_project_match p (rs ! (k - 1))) \<noteq> None)))
   \<and> (aiRecommend (project_id p) 20 = Inr rs
        \<and> (\<forall>m\<in>set (take 5 rs). send (new_project_match p m) = None) \<longrightarrow>
        notification_calls (snd (notifyRelevantVolunteers aiRecommend send p w))
          = notification_calls w @ map (new_project_match p) (take 5 rs))"
proof (intro conjI impI)
  let ?w = "w\<lparr>recommend_calls := recommend_calls w @ [(project_id p, 20)]\<rparr>"
  show "recommend_calls (snd (notifyRelevantVolunteers aiRecommend send p w))
     = recommend_calls w @ [(project_id p, 20)]"
  proof (cases "aiRecommend (project_id p) 20")
    case (Inl e)
    then show ?thesis by (simp add: notifyRelevantVolunteers_def notify_try_def)
  next
    case (Inr found)
    have "recommend_calls (snd (notify_each send p (take 5 found) ?w)) = recommend_calls ?w"
      using notify_each_frame [of send p "take 5 found" ?w] by blast
    with Inr show ?thesis
      unfolding notifyRelevantVolunteers_def by (simp add: snd_catch_calls notify_try_def)
  qed
  {
    assume "aiRecommend (project_id p) 20 = Inl e"
    then show "notification_calls (snd (notifyRelevantVolunteers aiRecommend send p w))
          = notification_calls w"
      by (simp add: notifyRelevantVolunteers_def notify_try_def)
  }
  {
    assume a: "aiRecommend (project_id p) 20 = Inr rs"
    from notify_each_exact [of "take 5 rs" send p ?w]
    obtain k where k: "k \<le> length (take 5 rs)"
      "notification_calls (snd (notify_each send p (take 5 rs) ?w))
         = notification_calls ?w @ map (new_project_match p) (take k (take 5 rs))"
      "\<forall>m\<in>set (take (k - 1) (take 5 rs)). send (new_project_match p m) = None"
      "k < length (take 5 rs) \<longrightarrow>
         0 < k \<and> send (new_project_match p (take 5 rs ! (k - 1))) \<noteq> None"
      by blast
    from k(1) have k5: "k \<le> 5" by simp
    then have t: "take k (take 5 rs) = take k rs" "take (k - 1) (take 5 rs) = take (k - 1) rs"
      by (simp_all add: min_absorb1)
    from k5 have n: "0 < k \<longrightarrow> take 5 rs ! (k - 1) = rs ! (k - 1)" by auto
    from k(2) a k5
    have "notification_calls (snd (notifyRelevantVolunteers aiRecommend send p w))
             = notification_calls w @ map (new_project_match p) (take k rs)"
      unfolding notifyRelevantVolunteers_def
      by (simp add: snd_catch_calls notify_try_def min_absorb1)
    moreover from k(3) have "\<forall>m\<in>set (take (k - 1) rs). send (new_project_match p m) = None"
      by (simp only: t)
    moreover from k(4) n have "k < length (take 5 rs) \<longrightarrow>
                0 < k \<and> send (new_project_match p (rs ! (k - 1))) \<noteq> None"
      by auto
    ultimately
    show "\<exists>k\<le>length (take 5 rs).
           notification_calls (snd (notifyRelevantVolunteers aiRecommend send p w))
             = notification_calls w @ map (new_project_match p) (take k rs)
           \<and> (\<forall>m\<in>set (take (k - 1) rs). send (new_project_match p m) = None)
           \<and> (k < length (take 5 rs) \<longrightarrow>
                0 < k \<and> send (new_project_match p (rs ! (k - 1))) \<noteq> None)"
      using k(1) by blast
  }
  {
    assume a: "aiRecommend (project_id p) 20 = Inr rs
        \<and> (\<forall>m\<in>set (take 5 rs). send (new_project_match p m) = None)"
    then have "notify_each send p (take 5 rs) ?w
       = (Inr (), ?w\<lparr>notification_calls := notification_calls ?w @ map (new_project_match p) (take 5 rs)\<rparr>)"
      by (simp add: notify_each_all_sent)
    with a show "notification_calls (snd (notifyRelevantVolunteers aiRecommend send p w))
          = notification_calls w @ map (new_project_match p) (take 5 rs)"
      by (simp add: notifyRelevantVolunteers_def notify_try_def)
  }
qed

lemma createProject_notifies:
  "prismaCreate (body req) = Inr created \<Longrightarrow> files req = [] \<Longrightarrow>
     snd (createProject True prismaCreate uploadImages aiRecommend send req w)
       = snd (notifyRelevantVolunteers aiRecommend send created
               (w\<lparr>project_table := (project_table w)(project_id created \<mapsto> created)\<rparr>))"
proof -
  assume c: "prismaCreate (body req) = Inr created" and f: "files req = []"
  let ?w = "w\<lparr>project_table := (project_table w)(project_id created \<mapsto> created)\<rparr>"
  obtain u w' where n: "notifyRelevantVolunteers aiRecommend send created ?w = (Inr u, w')"
    using notifyRelevantVolunteers_returns [of aiRecommend send created ?w]
    by (cases "notifyRelevantVolunteers aiRecommend send created ?w") auto
  with c f show ?thesis by (simp add: createProject_def)
qed

text \<open>
  A creation request that is answered with 201 has run the notification step on the
  project of the response, from a world with the calls made so far.
\<close>

lemma createProject_Inr:
  assumes "fst (createProject this_bound prismaCreate uploadImages aiRecommend send req w) = Inr resp"
  shows "\<exists>w2. recommend_calls w2 = recommend_calls w
     \<and> notification_calls w2 = notification_calls w
     \<and> snd (createProject this_bound prismaCreate uploadImages aiRecommend send req w)
         = snd (notifyRelevantVolunteers aiRecommend send (response_data resp) w2)"
proof -
  have n: "\<And>q v. \<exists>w'. notifyRelevantVolunteers aiRecommend send q v = (Inr (), w')"
    using notifyRelevantVolunteers_returns [of aiRecommend send]
    by (metis prod.collapse)
  from assms obtain created where c: "prismaCreate (body req) = Inr created"
    by (cases "prismaCreate (body req)") (auto simp: createProject_def Let_def)
  let ?w1 = "w\<lparr>project_table := (project_table w)(project_id created \<mapsto> created)\<rparr>"
  show ?thesis
  proof (cases "length (files req) > 0")
    case False
    obtain w' where w': "notifyRelevantVolunteers aiRecommend send created ?w1 = (Inr (), w')"
      using n by blast
    from assms c False w' have "response_data resp = created"
      "snd (createProject this_bound prismaCreate uploadImages aiRecommend send req w) = w'"
      by (auto simp: createProject_def Let_def split: if_splits)
    with w' show ?thesis by (intro exI [of _ ?w1]) simp
  next
    case True
    with assms c obtain imageUrls where u: "uploadImages (files req) = Inr imageUrls"
      by (cases "uploadImages (files req)") (auto simp: createProject_def Let_def)
    let ?p = "created\<lparr>images := imageUrls\<rparr>"
    let ?w2 = "?w1\<lparr>project_table := (project_table ?w1)(project_id created \<mapsto> ?p)\<rparr>"
    obtain w' where w': "notifyRelevantVolunteers aiRecommend send ?p ?w2 = (Inr (), w')"
      using n by blast
    from assms c True u w' have "response_data resp = ?p"
      "snd (createProject this_bound prismaCreate uploadImages aiRecommend send req w) = w'"
      by (auto simp: createProject_def Let_def split: if_splits)
    with w' show ?thesis by (intro exI [of _ ?w2]) simp
  qed
qed

text \<open>
  C8 (as stated in the specification, refuted). The claim has the first five results
  notified for every created project. With seven recommended volunteers and a
  \<open>sendNotification\<close> that throws on the third, the project is created and answered with
  201, but \<open>sendNotification\<close> is called for the first three volunteers only: the throw
  ends the loop and the fourth and fifth are never notified.
\<close>

theorem first_five_notified_counterexample:
  "fst (createProject True ex_create ex_upload ex_seven ex_send_third_throws ex_create_request ex_world)
     = Inr \<lparr> http_status = 201, response_message = ''Project created successfully'',
             response_data = pA \<rparr>
   \<and> map recipient (notification_calls (snd
        (createProject True ex_create ex_upload ex_seven ex_send_third_throws ex_create_request ex_world)))
     = [''v1'', ''v2'', ''v3'']
   \<and> map recipient (notification_calls (snd
        (notifyRelevantVolunteers ex_seven ex_send_third_throws pA ex_world)))
     = [''v1'', ''v2'', ''v3'']
   \<and> map (\<lambda>m. userId (entity m)) (take 5 (projr (ex_seven ''pA'' 20)))
     = [''v1'', ''v2'', ''v3'', ''v4'', ''v5'']"
proof -
  have n: "map recipient (notification_calls (snd
        (notifyRelevantVolunteers ex_seven ex_send_third_throws pA w)))
     = map recipient (notification_calls w) @ [''v1'', ''v2'', ''v3'']" for w
    by (simp add: notifyRelevantVolunteers_def notify_try_def ex_seven_def Let_def
        ex_send_third_throws_def new_project_match_def ex_scored_def)
  have c: "ex_create (body ex_create_request) = Inr pA" "files ex_create_request = []"
    by (simp_all add: ex_create_def ex_create_request_def)
  have w: "notification_calls ex_world = []" by (simp add: ex_world_def)
  have "fst (createProject True ex_create ex_upload ex_seven ex_send_third_throws ex_create_request ex_world)
     = Inr \<lparr> http_status = 201, response_message = ''Project created successfully'',
             response_data = pA \<rparr>"
    by (simp add: createProject_response ex_create_def ex_create_request_def)
  moreover have "map recipient (notification_calls (snd
        (createProject True ex_create ex_upload ex_seven ex_send_third_throws ex_create_request ex_world)))
     = [''v1'', ''v2'', ''v3'']"
    by (simp add: createProject_notifies [of ex_create ex_create_request pA, OF c] n w)
  moreover have "map recipient (notification_calls (snd
        (notifyRelevantVolunteers ex_seven ex_send_third_throws pA ex_world)))
     = [''v1'', ''v2'', ''v3'']"
    by (simp add: n w)
  moreover have "map (\<lambda>m. userId (entity m)) (take 5 (projr (ex_seven ''pA'' 20)))
     = [''v1'', ''v2'', ''v3'', ''v4'', ''v5'']"
    by (simp add: ex_seven_def ex_scored_def)
  ultimately show ?thesis by (intro conjI)
qed

text \<open>
  C8 (amended). Every creation request that \<open>createProject\<close> answers with 201 has run
  \<open>notifyRelevantVolunteers\<close> on the created project. That step calls the recommender
  once, with the project's id and the limit 20. When the recommender fails nobody is
  notified. Otherwise \<open>sendNotification\<close> is called for the first results of that call, in
  order, never beyond the fifth, and stops early only after a send that throws; when no
  send throws it is called for exactly the first five results (all of them when there
  are fewer).
\<close>

theorem notifies_first_five_until_a_send_throws:
  "recommend_calls (snd (notifyRelevantVolunteers aiRecommend send p w))
     = recommend_calls w @ [(project_id p, 20)]
   \<and> (aiRecommend (project_id p) 20 = Inl e \<longrightarrow>
        notification_calls (snd (notifyRelevantVolunteers aiRecommend send p w))
          = notification_calls w)
   \<and> (aiRecommend (project_id p) 20 = Inr rs \<longrightarrow>
        (\<exists>k\<le>length (take 5 rs).
           notification_calls (snd (notifyRelevantVolunteers aiRecommend send p w))
             = notification_calls w @ map (new_project_match p) (take k rs)
           \<and> (\<forall>m\<in>set (take (k - 1) rs). send (new_project_match p m) = None)
           \<and> (k < length (take 5 rs) \<longrightarrow>
                0 < k \<and> send (new_project_match p (rs ! (k - 1))) \<noteq> None)))
   \<and> (aiRecommend (project_id p) 20 = Inr rs
        \<and> (\<forall>m\<in>set (take 5 rs). send (new_project_match p m) = None) \<longrightarrow>
        notification_calls (snd (notifyRelevantVolunteers aiRecommend send p w))
          = notification_calls w @ map (new_project_match p) (take 5 rs))
   \<and> (fst (createProject this_bound prismaCreate uploadImages aiRecommend send req w) = Inr resp \<longrightarrow>
        (\<exists>w2. recommend_calls w2 = recommend_calls w
           \<and> notification_calls w2 = notification_calls w
           \<and> snd (createProject this_bound prismaCreate uploadImages aiRecommend send req w)
               = snd (notifyRelevantVolunteers aiRecommend send (response_data resp) w2)))"
  using notifyRelevantVolunteers_calls [of aiRecommend send p w e rs]
    createProject_Inr [of this_bound prismaCreate uploadImages aiRecommend send req w resp]
  by blast

theorem notifies_first_five_until_a_send_throws_witness:
  "recommend_calls (snd (notifyRelevantVolunteers ex_seven ex_send_ok pA ex_world)) = [(''pA'', 20)]
   \<and> map recipient (notification_calls (snd (notifyRelevantVolunteers ex_seven ex_send_ok pA ex_world)))
       = [''v1'', ''v2'', ''v3'', ''v4'', ''v5'']
   \<and> ex_recommend_down (project_id pA) 20 = Inl (Thrown ''matching service unavailable'')
   \<and> notification_calls (snd (notifyRelevantVolunteers ex_recommend_down ex_send_ok pA ex_world)) = []
   \<and> fst (createProject True ex_create ex_upload ex_seven ex_send_ok ex_create_request ex_world)
       = Inr \<lparr> http_status = 201, response_message = ''Project created successfully'',
               response_data = pA \<rparr>
   \<and> map recipient (notification_calls
         (snd (createProject True ex_create ex_upload ex_seven ex_send_ok ex_create_request ex_world)))
       = [''v1'', ''v2'', ''v3'', ''v4'', ''v5'']"
proof -
  let ?rs = "[ex_scored ''v1'' 90, ex_scored ''v2'' 80, ex_scored ''v3'' 70,
        ex_scored ''v4'' 60, ex_scored ''v5'' 50, ex_scored ''v6'' 40, ex_scored ''v7'' 30]"
  let ?resp = "\<lparr> http_status = 201, response_message = ''Project created successfully'',
               response_data = pA \<rparr>"
  let ?cp = "createProject True ex_create ex_upload ex_seven ex_send_ok ex_create_request ex_world"
  have w: "recommend_calls ex_world = []" "notification_calls ex_world = []"
    by (simp_all add: ex_world_def)
  have i: "project_id pA = ''pA''" by (simp add: pA_def mk_project_def)
  have h: "ex_seven (project_id pA) 20 = Inr ?rs"
    "\<forall>m\<in>set (take 5 ?rs). ex_send_ok (new_project_match pA m) = None"
    by (simp_all add: ex_seven_def ex_send_ok_def)
  have d: "ex_recommend_down (project_id pA) 20 = Inl (Thrown ''matching service unavailable'')"
    by (simp add: ex_recommend_down_def)
  have m: "map recipient (map (new_project_match pA) (take 5 ?rs))
       = [''v1'', ''v2'', ''v3'', ''v4'', ''v5'']"
    by (simp add: new_project_match_def ex_scored_def)
  have r: "fst ?cp = Inr ?resp"
    by (simp add: createProject_response ex_create_def ex_create_request_def)
  note t = notifies_first_five_until_a_send_throws [of ex_seven ex_send_ok pA ex_world
      "Thrown ''x''" ?rs True ex_create ex_upload ex_create_request ?resp]
  from t w i have c1:
    "recommend_calls (snd (notifyRelevantVolunteers ex_seven ex_send_ok pA ex_world)) = [(''pA'', 20)]"
    by simp
  from t h have "notification_calls (snd (notifyRelevantVolunteers ex_seven ex_send_ok pA ex_world))
          = notification_calls ex_world @ map (new_project_match pA) (take 5 ?rs)"
    by blast
  then have c2: "map recipient (notification_calls
        (snd (notifyRelevantVolunteers ex_seven ex_send_ok pA ex_world)))
       = [''v1'', ''v2'', ''v3'', ''v4'', ''v5'']"
    by (simp only: w append_Nil m)
  from notifies_first_five_until_a_send_throws [of ex_recommend_down ex_send_ok pA ex_world
      "Thrown ''matching service unavailable''" "[]" True ex_create ex_upload ex_create_request ?resp]
    d w
  have c3: "notification_calls (snd (notifyRelevantVolunteers ex_recommend_down ex_send_ok pA ex_world)) = []"
    by simp
  from t r obtain w2 where w2: "recommend_calls w2 = recommend_calls ex_world"
      "notification_calls w2 = notification_calls ex_world"
      "snd ?cp = snd (notifyRelevantVolunteers ex_seven ex_send_ok (response_data ?resp) w2)"
    by blast
  from notifies_first_five_until_a_send_throws [of ex_seven ex_send_ok pA w2
      "Thrown ''x''" ?rs True ex_create ex_upload ex_create_request ?resp] h
  have "notification_calls (snd (notifyRelevantVolunteers ex_seven ex_send_ok pA w2))
          = notification_calls w2 @ map (new_project_match pA) (take 5 ?rs)"
    by blast
  with w2 w have "notification_calls (snd ?cp) = map (new_project_match pA) (take 5 ?rs)"
    by simp
  then have c5: "map recipient (notification_calls (snd ?cp)) = [''v1'', ''v2'', ''v3'', ''v4'', ''v5'']"
    by (simp only: m)
  from c1 c2 d c3 r c5 show ?thesis by (intro conjI)
qed

section \<open>Withdrawing an accepted application\<close>

text \<open>
  C10. For every withdrawal request on an existing application whose status is ACCEPTED,
  \<open>withdrawApplication\<close> fails with an error (403 for a wrong role or another volunteer's
  application, 400 otherwise) and leaves everything as it was: the application is not
  deleted, \<open>volunteersApplied\<close> is not decremented, no notification is sent.
\<close>

theorem accepted_application_cannot_be_withdrawn:
  assumes "application_table w (params_applicationId req) = Some a"
    and "application_status a = ''ACCEPTED''"
  shows "withdrawApplication send req w =
     (Inl (if role (withdraw_user req) \<noteq> ''VOLUNTEER''
           then AppError ''Only volunteers can withdraw applications'' 403
           else if volunteerId a \<noteq> user_id (withdraw_user req)
           then AppError ''Access denied'' 403
           else AppError ''Cannot withdraw an accepted application. Please contact the organization.'' 400),
      w)
   \<and> isl (fst (withdrawApplication send req w))
   \<and> application_table (snd (withdrawApplication send req w)) = application_table w
   \<and> project_table (snd (withdrawApplication send req w)) = project_table w"
  using assms by (simp add: withdrawApplication_def Let_def)

theorem accepted_application_cannot_be_withdrawn_witness:
  "application_table ex_world (params_applicationId ex_withdraw) = Some ex_application
   \<and> application_status ex_application = ''ACCEPTED''
   \<and> withdrawApplication ex_send_ok ex_withdraw ex_world =
       (Inl (AppError ''Cannot withdraw an accepted application. Please contact the organization.'' 400),
        ex_world)"
proof -
  have h1: "application_table ex_world (params_applicationId ex_withdraw) = Some ex_application"
    by (simp add: ex_world_def ex_withdraw_def)
  have h2: "application_status ex_application = ''ACCEPTED''"
    by (simp add: ex_application_def)
  have u: "role (withdraw_user ex_withdraw) = ''VOLUNTEER''"
    "volunteerId ex_application = user_id (withdraw_user ex_withdraw)"
    by (simp_all add: ex_withdraw_def ex_application_def)
  from accepted_application_cannot_be_withdrawn [OF h1 h2, of ex_send_ok] u h1 h2
  show ?thesis by simp
qed

text \<open>
  For contrast, a pending application of the same volunteer is deleted and the count
  of the project goes down by one.
\<close>

lemma pending_application_is_withdrawn:
  "fst (withdrawApplication ex_send_ok ex_withdraw
      (ex_world\<lparr>application_table := [''a1'' \<mapsto> ex_application\<lparr>application_status := ''PENDING''\<rparr>]\<rparr>))
     = Inr ''Application withdrawn successfully''
   \<and> application_table (snd (withdrawApplication ex_send_ok ex_withdraw
      (ex_world\<lparr>application_table := [''a1'' \<mapsto> ex_application\<lparr>application_status := ''PENDING''\<rparr>]\<rparr>)))
       ''a1'' = None
   \<and> map_option volunteersApplied (project_table (snd (withdrawApplication ex_send_ok ex_withdraw
      (ex_world\<lparr>application_table := [''a1'' \<mapsto> ex_application\<lparr>application_status := ''PENDING''\<rparr>]\<rparr>)))
       ''pA'') = Some 9"
  by (simp add: withdrawApplication_def ex_world_def ex_withdraw_def ex_application_def
      ex_send_ok_def pA_def mk_project_def Let_def)

end
